theory Spec2Isabelle
  imports Complex_Main "HOL-Library.AList" "HOL-Library.Sublist"
begin

section \<open>Orchestration engine of the autonomous solver (src/index.tsx)\<close>

text \<open>
  The module keeps its mission state in module-level variables; the model collects them in one
  record that every operation takes and returns. JavaScript \<open>Map\<close>s are association lists
  in insertion order (\<open>AList.update\<close> overwrites in place or appends, as \<open>Map.set\<close> does;
  \<open>AList.delete\<close> is \<open>Map.delete\<close>). Counters are unbounded naturals or integers: the
  double-precision limit of 2^53 is out of reach of one increment per insertion. The
  components of an embedding are only stored: the arithmetic of the similarity search is
  not part of the model. Promise scores and the draws of \<open>Math.random\<close> are reals; they
  are compared, and the sum of the promise scores of an agent is kept without rounding.
  Strings are lists of 8-bit characters. The generation, embedding and sandbox services,
  \<open>Math.random\<close> and the DOM are inputs of the model (record \<open>env\<close>).
\<close>

subsection \<open>String primitives\<close>

text \<open>Decimal rendering of a counter, as template literals and \<open>toString\<close> produce it.\<close>

definition digit_char :: "nat \<Rightarrow> char" where
  "digit_char d = char_of (48 + d)"

function string_of_nat :: "nat \<Rightarrow> string" where
  "string_of_nat n =
     (if n < 10 then [digit_char n]
      else string_of_nat (n div 10) @ [digit_char (n mod 10)])"
  by pat_completeness auto
termination
  by (relation "measure (\<lambda>n. n)") auto

declare string_of_nat.simps [simp del]

text \<open>\<open>Array.prototype.join\<close>.\<close>

fun join :: "string \<Rightarrow> string list \<Rightarrow> string" where
  "join sep [] = []"
| "join sep [x] = x"
| "join sep (x # y # ys) = x @ sep @ join sep (y # ys)"

text \<open>
  \<open>String.prototype.toUpperCase\<close> on the letters a to z; every other character is kept
  (the model's strings are ASCII).
\<close>

definition upper_char :: "char \<Rightarrow> char" where
  "upper_char c =
     (if 97 \<le> (of_char c :: nat) \<and> (of_char c :: nat) \<le> 122
      then char_of ((of_char c :: nat) - 32) else c)"

definition toUpperCase :: "string \<Rightarrow> string" where
  "toUpperCase s = map upper_char s"

text \<open>
  \<open>rel.split(':')\<close>: the fields between colons; the empty string gives one empty field.
\<close>

fun split_colon :: "string \<Rightarrow> string list" where
  "split_colon [] = [[]]"
| "split_colon (c # cs) =
     (if c = CHR '':'' then [] # split_colon cs
      else (case split_colon cs of
              [] \<Rightarrow> [[c]]
            | f # fs \<Rightarrow> (c # f) # fs))"

text \<open>
  \<open>String.prototype.trim\<close>: white space and line terminators of the 8-bit range
  (TAB, LF, VT, FF, CR, SP, NBSP) are removed at both ends.
\<close>

definition isWhiteSpace :: "char \<Rightarrow> bool" where
  "isWhiteSpace c = ((of_char c :: nat) \<in> {9, 10, 11, 12, 13, 32, 160})"

definition trim :: "string \<Rightarrow> string" where
  "trim s = rev (dropWhile isWhiteSpace (rev (dropWhile isWhiteSpace s)))"

text \<open>\<open>s.startsWith(p)\<close> is \<^const>\<open>prefix\<close> \<open>p s\<close>; \<open>s.includes(p)\<close>:\<close>

fun includes_str :: "string \<Rightarrow> string \<Rightarrow> bool" where
  "includes_str [] p = (p = [])"
| "includes_str (c # cs) p = (prefix p (c # cs) \<or> includes_str cs p)"

text \<open>\<open>s.replace(p, r)\<close> with a string pattern: the first occurrence only.\<close>

fun replace :: "string \<Rightarrow> string \<Rightarrow> string \<Rightarrow> string" where
  "replace [] p r = (if p = [] then r else [])"
| "replace (c # cs) p r =
     (if prefix p (c # cs) then r @ drop (length p) (c # cs)
      else c # replace cs p r)"

subsection \<open>Data model\<close>

type_synonym NotebookId = string

text \<open>
  The fixed text of a log template is named, its interpolated values are the arguments;
  \<open>Markdown\<close> is text that came from a service as it is.
\<close>

datatype markdown = Markdown string | Template string "string list"

record LogEntry =
  log_id :: string
  rawMarkdown :: markdown

text \<open>\<open>NotebookState\<close> without its DOM element.\<close>

record NotebookState =
  logs :: "LogEntry list"
  logCounter :: nat

record SpecialistMetadata =
  required_tools :: "string list"
  lifespan_cycles :: "int option"
  creationCycle :: int

datatype NodeType =
  THEOREM | HYPOTHESIS | REFUTATION | DIRECTIVE | LEMMA | CONCEPT | ANALOGY
  | RESEARCH_VECTOR | VERIFICATION_SUCCESS | VERIFICATION_FAILURE | CODE_EXPERIMENT
  | ABSTRACTION | SUB_GOAL

fun type_name :: "NodeType \<Rightarrow> string" where
  "type_name THEOREM = ''THEOREM''"
| "type_name HYPOTHESIS = ''HYPOTHESIS''"
| "type_name REFUTATION = ''REFUTATION''"
| "type_name DIRECTIVE = ''DIRECTIVE''"
| "type_name LEMMA = ''LEMMA''"
| "type_name CONCEPT = ''CONCEPT''"
| "type_name ANALOGY = ''ANALOGY''"
| "type_name RESEARCH_VECTOR = ''RESEARCH_VECTOR''"
| "type_name VERIFICATION_SUCCESS = ''VERIFICATION_SUCCESS''"
| "type_name VERIFICATION_FAILURE = ''VERIFICATION_FAILURE''"
| "type_name CODE_EXPERIMENT = ''CODE_EXPERIMENT''"
| "type_name ABSTRACTION = ''ABSTRACTION''"
| "type_name SUB_GOAL = ''SUB_GOAL''"

text \<open>\<open>node.type.charAt(0)\<close>, a string of one character.\<close>

definition charAt0 :: "string \<Rightarrow> string" where
  "charAt0 s = take 1 s"

record KnowledgeNode =
  kn_id :: string
  kn_type :: NodeType
  kn_content :: string
  kn_relations :: "string list"
  kn_invalidated :: "bool option"
  kn_verified :: "bool option"
  kn_createdBy :: "NotebookId option"
  kn_promiseScore :: "real option"

record PerformanceMetric =
  nodesCreated :: nat
  totalPromise :: real

record VectorEntry =
  ve_id :: string
  embedding :: "real list"

text \<open>The persisted \<open>MissionState\<close> and the object store, one value under \<open>DB_KEY\<close>.\<close>

record MissionState =
  ms_knowledgeGraph :: "KnowledgeNode list"
  ms_knowledgeNodeCounter :: nat
  ms_cycleCounter :: int
  ms_stagnationCounter :: nat
  ms_currentMissionObjective :: string
  ms_activeResearchVector :: string
  ms_activeSpecialists :: "NotebookId list"
  ms_notebookLogs :: "(NotebookId \<times> LogEntry list) list"
  ms_specialistPrompts :: "(NotebookId \<times> string) list"
  ms_specialistMetadata :: "(NotebookId \<times> SpecialistMetadata) list"
  ms_strategicFocusHistory :: "string list"
  ms_agentPerformanceMetrics :: "(NotebookId \<times> PerformanceMetric) list"

definition DB_KEY :: string where
  "DB_KEY = ''current-mission-state''"

record mission =
  notebooks :: "(NotebookId \<times> NotebookState) list"
  specialistMetadata :: "(NotebookId \<times> SpecialistMetadata) list"
  specialistPrompts :: "(NotebookId \<times> string) list"
  activeSpecialists :: "NotebookId list"
  knowledgeGraphMap :: "(string \<times> KnowledgeNode) list"
  knowledgeNodeCounter :: nat
  vectorKnowledgeBase :: "VectorEntry list"
  currentMissionObjective :: string
  activeResearchVector :: string
  stagnationCounter :: nat
  strategicFocusHistory :: "string list"
  agentPerformanceMetrics :: "(NotebookId \<times> PerformanceMetric) list"
  cycleCounter :: int
  isSearching :: bool
  searchIntervalId :: "nat option"
  finalProofContent :: string
  breakthroughShown :: bool
  db :: "(string \<times> MissionState) list option"

definition CHAOS_INTERVENTION_THRESHOLD :: nat where
  "CHAOS_INTERVENTION_THRESHOLD = 5"

definition STRATEGIC_BIAS_WINDOW :: nat where
  "STRATEGIC_BIAS_WINDOW = 8"

definition STRATEGIC_BIAS_THRESHOLD :: real where
  "STRATEGIC_BIAS_THRESHOLD = 6 / 10"

definition seedAgents :: "NotebookId list" where
  "seedAgents = [''specialist-1'', ''specialist-2'', ''specialist-3'',
                 ''specialist-4'', ''specialist-5'', ''specialist-6'']"


definition string_of_int :: "int \<Rightarrow> string" where
  "string_of_int i = (if i < 0 then ''-'' @ string_of_nat (nat (- i)) else string_of_nat (nat i))"

subsection \<open>External services\<close>

text \<open>
  A one-shot generation request of a tool effect is kept as its kind and the values
  interpolated into its prompt; the result is the response's text, absent text, or a throw.
\<close>

datatype gen_request =
    IntuitionistRequest "string option" KnowledgeNode KnowledgeNode
  | SkepticRequest "string option" KnowledgeNode
  | WebSearchRequest string
  | PeerReviewRequest string string string string "markdown list"

datatype gen_result = GenText "string option" | GenThrows string

subsection \<open>Architect payload and tool calls\<close>

record research_vector =
  description :: string
  promise_score :: real

text \<open>
  An item of \<open>knowledge_update\<close>. The schema names \<open>type\<close>, \<open>content\<close>, \<open>relations\<close>
  and \<open>created_by\<close>; the parsed object can carry further properties, and the three that
  the spread \<open>...node\<close> copies into a field of the stored node are kept: \<open>id\<close>,
  \<open>invalidated\<close> and \<open>verified\<close>, each \<open>None\<close> when the item has no such property.
\<close>

record knowledge_update_item =
  ku_type :: NodeType
  ku_content :: string
  ku_relations :: "string list"
  created_by :: NotebookId
  ku_id :: "string option"
  ku_invalidated :: "bool option"
  ku_verified :: "bool option"

text \<open>
  The response schema marks no property as required, and the code tests the sections for
  presence: they are options. An empty \<open>strategic_focus\<close> is the falsy one.
\<close>

record strategic_planning_t =
  strategic_focus :: string
  research_vectors :: "research_vector list option"

record strategic_assessment_t =
  stagnation_level :: int
  justification :: string

record SynthesizerResponse =
  knowledge_update :: "knowledge_update_item list option"
  strategic_planning :: "strategic_planning_t option"
  strategic_assessment :: "strategic_assessment_t option"
  synthesis_summary :: "string option"

datatype tool_call =
    invoke_intuitionist string string string
  | challenge_with_skeptic string string
  | deploy_new_specialist_agent string string string string "string list option" "int option"
  | request_formal_verification string string
  | execute_python_code string string
  | retire_agent string string
  | perform_web_search string
  | modify_agent_prompt string string string
  | request_peer_review string string string
  | other_tool string

fun call_name :: "tool_call \<Rightarrow> string" where
  "call_name (invoke_intuitionist a b r) = ''invoke_intuitionist''"
| "call_name (challenge_with_skeptic n r) = ''challenge_with_skeptic''"
| "call_name (deploy_new_specialist_agent i p t c q l) = ''deploy_new_specialist_agent''"
| "call_name (request_formal_verification n p) = ''request_formal_verification''"
| "call_name (execute_python_code c r) = ''execute_python_code''"
| "call_name (retire_agent a r) = ''retire_agent''"
| "call_name (perform_web_search q) = ''perform_web_search''"
| "call_name (modify_agent_prompt a p r) = ''modify_agent_prompt''"
| "call_name (request_peer_review a b t) = ''request_peer_review''"
| "call_name (other_tool n) = n"

text \<open>
  The \<open>response\<close> object handed back to the oracle: \<open>Failure e\<close> is
  \<open>{success: false, error: e}\<close>, every other form has \<open>success: true\<close>.
\<close>

datatype tool_response =
    Failure string
  | NewConcept string
  | Critique string
  | Message string
  | Verified bool string
  | CodeOutput string string
  | SearchSummary string
  | ReviewSummary string

fun success :: "tool_response \<Rightarrow> bool" where
  "success (Failure e) = False"
| "success r = True"

record FunctionResponse =
  fr_name :: string
  response :: tool_response

record architect_request =
  chaosInterventionPrompt :: "markdown option"
  req_knowledgeGraph :: "KnowledgeNode list"
  req_specialistInputs :: "(NotebookId \<times> string) list"
  req_cycle :: int
  req_stagnation :: nat
  req_focusHistory :: "string list"
  req_metrics :: "(NotebookId \<times> PerformanceMetric) list"

datatype message =
    UserPrompt architect_request
  | ModelCalls "tool_call list"
  | ToolResponse "FunctionResponse option"

datatype architect_result =
    FunctionCalls "tool_call list"
  | FinalText "string option"
  | GenerateThrows string

text \<open>
  The environment: the embedding service (\<open>None\<close> when it fails), the architect's
  generation service as a function of the conversation so far, the one-shot generations,
  the sandbox and the two draws of \<open>Math.random\<close> by round, whether the column of a new
  agent yields a notebook element, and \<open>JSON.parse\<close> (\<open>None\<close> when it throws).
\<close>

record env =
  embedContent :: "string \<Rightarrow> real list option"
  architect :: "message list \<Rightarrow> architect_result"
  generateContent :: "nat \<Rightarrow> gen_request \<Rightarrow> gen_result"
  runPython :: "nat \<Rightarrow> string \<Rightarrow> string \<times> string"
  mathRandom :: "nat \<Rightarrow> real \<times> real"
  notebookElementFound :: "string \<Rightarrow> bool"
  jsonParse :: "string \<Rightarrow> SynthesizerResponse option"

subsection \<open>Logs, registry and lifecycle\<close>

definition addLogEntry :: "mission \<Rightarrow> NotebookId \<Rightarrow> markdown \<Rightarrow> mission" where
  "addLogEntry st notebookId md =
     (case map_of (notebooks st) notebookId of
        None \<Rightarrow> st
      | Some nb \<Rightarrow>
          st\<lparr>notebooks :=
               AList.update notebookId
                 (nb\<lparr>logs := logs nb @
                        [\<lparr>log_id = notebookId @ ''-log-'' @ string_of_nat (logCounter nb),
                          rawMarkdown = md\<rparr>],
                     logCounter := Suc (logCounter nb)\<rparr>)
                 (notebooks st)\<rparr>)"

definition zeroMetric :: PerformanceMetric where
  "zeroMetric = \<lparr>nodesCreated = 0, totalPromise = 0\<rparr>"

text \<open>
  \<open>deployNewAgent\<close>; title and icon only reach the DOM. The static container of the
  page is present; the notebook element of the new column may not be found.
\<close>

definition deployNewAgent ::
  "env \<Rightarrow> mission \<Rightarrow> string \<Rightarrow> string \<Rightarrow> string list \<Rightarrow> int option \<Rightarrow> bool \<Rightarrow> mission" where
  "deployNewAgent e st ident missionPrompt tools lifespan isFromLoad =
     (if ident \<in> fst ` set (notebooks st) then st
      else if \<not> notebookElementFound e ident then st
      else
        let st1 = st\<lparr>
              notebooks := AList.update ident \<lparr>logs = [], logCounter = 0\<rparr> (notebooks st),
              specialistMetadata :=
                AList.update ident
                  \<lparr>required_tools = tools, lifespan_cycles = lifespan,
                    creationCycle = cycleCounter st\<rparr>
                  (specialistMetadata st),
              specialistPrompts := AList.update ident missionPrompt (specialistPrompts st),
              activeSpecialists :=
                (if ident \<in> set (activeSpecialists st) then activeSpecialists st
                 else activeSpecialists st @ [ident]),
              agentPerformanceMetrics :=
                AList.update ident zeroMetric (agentPerformanceMetrics st)\<rparr>
        in if isFromLoad then st1
           else addLogEntry st1 ident
                  (Template ''New Specialist Deployed''
                     [missionPrompt,
                      (case lifespan of
                         None \<Rightarrow> ''Indefinite''
                       | Some l \<Rightarrow> if l = 0 then ''Indefinite''
                                   else string_of_int l @ '' cycles'')]))"

definition retireAgent :: "mission \<Rightarrow> string \<Rightarrow> string \<Rightarrow> mission" where
  "retireAgent st ident reason =
     addLogEntry
       (st\<lparr>notebooks := AList.delete ident (notebooks st),
           specialistMetadata := AList.delete ident (specialistMetadata st),
           specialistPrompts := AList.delete ident (specialistPrompts st),
           activeSpecialists := filter (\<lambda>specId. specId \<noteq> ident) (activeSpecialists st),
           agentPerformanceMetrics := AList.delete ident (agentPerformanceMetrics st)\<rparr>)
       ''synthesizer'' (Template ''Agent Retired'' [ident, reason])"

text \<open>
  \<open>checkAgentLifecycles\<close>: the first loop collects, the second retires what was
  collected.
\<close>

definition agentsToRetire :: "mission \<Rightarrow> (NotebookId \<times> string) list" where
  "agentsToRetire st =
     concat (map (\<lambda>ident.
        (case map_of (specialistMetadata st) ident of
           None \<Rightarrow> []
         | Some meta \<Rightarrow>
             (case lifespan_cycles meta of
                None \<Rightarrow> []
              | Some l \<Rightarrow>
                  if cycleCounter st - creationCycle meta \<ge> l
                  then [(ident, ''Lifespan of '' @ string_of_int l @ '' cycles expired.'')]
                  else [])))
       (activeSpecialists st))"

definition checkAgentLifecycles :: "mission \<Rightarrow> mission" where
  "checkAgentLifecycles st =
     foldl (\<lambda>s (ident, reason). retireAgent s ident reason) st (agentsToRetire st)"


subsection \<open>Knowledge graph: derived invalidation\<close>

text \<open>
  The first pass of \<open>renderKnowledgeGraph\<close>: \<open>const [action, targetId] = rel.split(':')\<close>
  takes the first two fields, and \<open>targetId\<close> is \<open>undefined\<close> (here \<open>None\<close>) when the
  relation has no colon.
\<close>

definition relationTarget :: "string \<Rightarrow> string option list" where
  "relationTarget rel =
     (case split_colon rel of
        [] \<Rightarrow> []
      | action # rest \<Rightarrow>
          let targetId = (case rest of [] \<Rightarrow> None | t # _ \<Rightarrow> Some t);
              upperAction = toUpperCase action
          in if upperAction = ''INVALIDATES'' \<or> upperAction = ''REFUTES''
             then [targetId] else [])"

definition invalidatedIds :: "KnowledgeNode list \<Rightarrow> string option list" where
  "invalidatedIds allNodes =
     concat (map (\<lambda>node. concat (map relationTarget (kn_relations node))) allNodes)"

text \<open>
  The second pass stores the flag in every node; what it draws is outside the model.
\<close>

definition renderKnowledgeGraph :: "mission \<Rightarrow> mission" where
  "renderKnowledgeGraph st =
     (let allNodes = map snd (knowledgeGraphMap st);
          inv = invalidatedIds allNodes
      in st\<lparr>knowledgeGraphMap :=
              map (\<lambda>(k, node). (k, node\<lparr>kn_invalidated := Some (Some (kn_id node) \<in> set inv)\<rparr>))
                (knowledgeGraphMap st)\<rparr>)"

subsection \<open>Bias detector\<close>

text \<open>
  \<open>focusCounts\<close> is an object literal, so a label is looked up along the prototype chain:
  for a label that names a property of \<open>Object.prototype\<close> the first
  \<open>(acc[focus] || 0) + 1\<close> finds a function (or, for \<open>__proto__\<close>, the prototype),
  the sum is a string, and every later sum appends to it; such a count divided by the
  window is \<open>NaN\<close>. Assigning a string to \<open>__proto__\<close> stores nothing.
\<close>

datatype count_value = Count nat | NotANumber

definition objectPrototypeKeys :: "string list" where
  "objectPrototypeKeys =
     [''constructor'', ''__defineGetter__'', ''__defineSetter__'', ''hasOwnProperty'',
      ''__lookupGetter__'', ''__lookupSetter__'', ''isPrototypeOf'',
      ''propertyIsEnumerable'', ''toString'', ''valueOf'', ''__proto__'',
      ''toLocaleString'']"

definition countFocus :: "(string \<times> count_value) list \<Rightarrow> string \<Rightarrow> (string \<times> count_value) list" where
  "countFocus acc focus =
     (case map_of acc focus of
        Some (Count n) \<Rightarrow> AList.update focus (Count (n + 1)) acc
      | Some NotANumber \<Rightarrow> AList.update focus NotANumber acc
      | None \<Rightarrow>
          if focus = ''__proto__'' then acc
          else if focus \<in> set objectPrototypeKeys then AList.update focus NotANumber acc
          else AList.update focus (Count 1) acc)"

definition isDominant :: "string \<times> count_value \<Rightarrow> bool" where
  "isDominant entry =
     (case snd entry of
        Count n \<Rightarrow> real n / real STRATEGIC_BIAS_WINDOW \<ge> STRATEGIC_BIAS_THRESHOLD
      | NotANumber \<Rightarrow> False)"

text \<open>
  The bias warning of \<open>renderArchitectDashboard\<close>: the label shown, or \<open>None\<close> when the
  warning is hidden. \<open>Object.entries\<close> lists integer-like keys before the others; no two
  entries can pass the test, so the order does not change what \<open>find\<close> returns.
\<close>

definition biasWarning :: "string list \<Rightarrow> string option" where
  "biasWarning history =
     (let lastNFocuses = drop (length history - STRATEGIC_BIAS_WINDOW) history
      in if length lastNFocuses = STRATEGIC_BIAS_WINDOW
         then map_option fst (find isDominant (foldl countFocus [] lastNFocuses))
         else None)"

subsection \<open>Embeddings\<close>

text \<open>\<open>getEmbedding\<close>: no vector for the empty text or when the service fails.\<close>

definition getEmbedding :: "env \<Rightarrow> string \<Rightarrow> real list option" where
  "getEmbedding e text = (if text = [] then None else embedContent e text)"

subsection \<open>Applying the architect's payload\<close>

text \<open>
  A function that can throw returns \<open>Inl\<close> with the state reached at the throw and the
  message, \<open>Inr\<close> with its result otherwise.

  One pass of the loop over \<open>knowledge_update\<close>. The counter is read and incremented
  first; \<open>strategic_planning.research_vectors.find\<close> throws a TypeError when either is
  absent (\<open>vectors = None\<close>). In the object literal of the new node \<open>id: newNodeId\<close>
  comes before the spread \<open>...node\<close>, so an \<open>id\<close> of the item replaces it, and
  \<open>createdBy\<close> and \<open>promiseScore\<close> come after it.
\<close>

definition promiseScoreFor :: "research_vector list \<Rightarrow> knowledge_update_item \<Rightarrow> real" where
  "promiseScoreFor vs node =
     (case find (\<lambda>v. includes_str (ku_content node) (take 50 (description v))) vs of
        Some v \<Rightarrow> promise_score v
      | None \<Rightarrow> 1 / 2)"

definition newKnowledgeNode :: "string \<Rightarrow> knowledge_update_item \<Rightarrow> real \<Rightarrow> KnowledgeNode" where
  "newKnowledgeNode newNodeId node promiseScore =
     \<lparr>kn_id = (case ku_id node of None \<Rightarrow> newNodeId | Some ownId \<Rightarrow> ownId),
      kn_type = ku_type node, kn_content = ku_content node,
      kn_relations = ku_relations node, kn_invalidated = ku_invalidated node,
      kn_verified = ku_verified node,
      kn_createdBy = Some (created_by node), kn_promiseScore = Some promiseScore\<rparr>"

definition insertNode ::
  "env \<Rightarrow> research_vector list option \<Rightarrow> mission \<Rightarrow> knowledge_update_item
     \<Rightarrow> (mission \<times> string) + mission" where
  "insertNode e vectors st node =
     (let newNodeId = charAt0 (type_name (ku_type node)) @ string_of_nat (knowledgeNodeCounter st);
          st1 = st\<lparr>knowledgeNodeCounter := Suc (knowledgeNodeCounter st)\<rparr>
      in case vectors of
           None \<Rightarrow> Inl (st1, ''TypeError'')
         | Some vs \<Rightarrow>
             let promiseScore = promiseScoreFor vs node;
                 newNode = newKnowledgeNode newNodeId node promiseScore;
                 st2 = st1\<lparr>knowledgeGraphMap :=
                             AList.update newNodeId newNode (knowledgeGraphMap st1)\<rparr>;
                 st3 = (if created_by node \<noteq> [] then
                          (case map_of (agentPerformanceMetrics st2) (created_by node) of
                             Some metrics \<Rightarrow>
                               st2\<lparr>agentPerformanceMetrics :=
                                     AList.update (created_by node)
                                       (metrics\<lparr>nodesCreated := nodesCreated metrics + 1,
                                                totalPromise := totalPromise metrics + promiseScore\<rparr>)
                                       (agentPerformanceMetrics st2)\<rparr>
                           | None \<Rightarrow> st2)
                        else st2);
                 st4 = (case getEmbedding e (ku_content node) of
                          Some emb \<Rightarrow>
                            st3\<lparr>vectorKnowledgeBase :=
                                  vectorKnowledgeBase st3 @ [\<lparr>ve_id = newNodeId, embedding = emb\<rparr>]\<rparr>
                        | None \<Rightarrow> st3)
             in Inr (if ku_type node = DIRECTIVE
                     then st4\<lparr>currentMissionObjective := ku_content node\<rparr> else st4))"

fun insertNodes ::
  "env \<Rightarrow> research_vector list option \<Rightarrow> mission \<Rightarrow> knowledge_update_item list
     \<Rightarrow> (mission \<times> string) + mission" where
  "insertNodes e vectors st [] = Inr st"
| "insertNodes e vectors st (node # nodes) =
     (case insertNode e vectors st node of
        Inl t \<Rightarrow> Inl t
      | Inr st' \<Rightarrow> insertNodes e vectors st' nodes)"

definition bestVector :: "research_vector list \<Rightarrow> string option" where
  "bestVector vs =
     fst (foldl (\<lambda>(best, maxPromise) vec.
                   if promise_score vec > maxPromise
                   then (Some (description vec), promise_score vec)
                   else (best, maxPromise))
            (None, - 1) vs)"

definition parseAndApplyArchitectResponse ::
  "env \<Rightarrow> mission \<Rightarrow> SynthesizerResponse \<Rightarrow> (mission \<times> string) + mission" where
  "parseAndApplyArchitectResponse e st parsedResponse =
     (let st1 = (case strategic_planning parsedResponse of
                   None \<Rightarrow> st
                 | Some p \<Rightarrow>
                     if strategic_focus p \<noteq> []
                     then st\<lparr>strategicFocusHistory :=
                               strategicFocusHistory st @ [strategic_focus p]\<rparr>
                     else st);
          vectors = (case strategic_planning parsedResponse of
                       None \<Rightarrow> None
                     | Some p \<Rightarrow> research_vectors p)
      in case (case knowledge_update parsedResponse of
                 None \<Rightarrow> Inr st1
               | Some nodes \<Rightarrow> insertNodes e vectors st1 nodes) of
           Inl t \<Rightarrow> Inl t
         | Inr st2 \<Rightarrow>
             let st3 = (case vectors of
                          None \<Rightarrow> st2
                        | Some vs \<Rightarrow>
                            (case bestVector vs of
                               None \<Rightarrow> st2
                             | Some d \<Rightarrow> if d \<noteq> [] then st2\<lparr>activeResearchVector := d\<rparr> else st2));
                 st4 = (case strategic_assessment parsedResponse of
                          None \<Rightarrow> st3
                        | Some a \<Rightarrow>
                            if stagnation_level a > 0
                            then st3\<lparr>stagnationCounter := Suc (stagnationCounter st3)\<rparr>
                            else st3\<lparr>stagnationCounter := 0\<rparr>)
             in Inr (renderKnowledgeGraph st4))"

subsection \<open>Scheduler: stop and reset\<close>

text \<open>
  \<open>stopSearch\<close>. A timer handle is positive, so the test of \<open>searchIntervalId\<close> is the
  test for a handle. \<open>db?.delete(STORE_NAME, DB_KEY)\<close> and the breakthrough screen
  belong to the success branch.
\<close>

definition stopSearch :: "bool \<Rightarrow> mission \<Rightarrow> mission" where
  "stopSearch isSuccess st =
     (let st1 = st\<lparr>searchIntervalId := None, isSearching := False\<rparr>
      in if isSuccess
         then st1\<lparr>db := map_option (AList.delete DB_KEY) (db st1), breakthroughShown := True\<rparr>
         else st1)"

definition initialObjective :: string where
  "initialObjective = ''Awaiting directive from Metacognitive Architect...''"

definition initialVector :: string where
  "initialVector = ''Awaiting strategic plan...''"

definition clearAllNotebooks :: "bool \<Rightarrow> mission \<Rightarrow> mission" where
  "clearAllNotebooks fromNewButtonClick st =
     (let st0 = st\<lparr>breakthroughShown := False\<rparr>;
          st1 = (if fromNewButtonClick then st0\<lparr>db := map_option (\<lambda>store. []) (db st0)\<rparr> else st0);
          dynamicAgents = filter (\<lambda>ident. ident \<notin> set seedAgents) (activeSpecialists st1);
          st2 = foldl (\<lambda>s ident. retireAgent s ident ''New mission started.'') st1 dynamicAgents;
          st3 = st2\<lparr>finalProofContent := [], knowledgeGraphMap := [],
                    vectorKnowledgeBase := [], knowledgeNodeCounter := 0, cycleCounter := 0,
                    stagnationCounter := 0, strategicFocusHistory := [],
                    agentPerformanceMetrics := [],
                    currentMissionObjective := initialObjective,
                    activeResearchVector := initialVector,
                    activeSpecialists := seedAgents\<rparr>;
          st4 = st3\<lparr>agentPerformanceMetrics :=
                      foldl (\<lambda>m ident. AList.update ident zeroMetric m)
                        (agentPerformanceMetrics st3) (activeSpecialists st3)\<rparr>;
          st5 = renderKnowledgeGraph st4;
          st6 = st5\<lparr>notebooks :=
                      map (\<lambda>(k, nb). (k, nb\<lparr>logs := [], logCounter := 0\<rparr>)) (notebooks st5)\<rparr>
      in foldl (\<lambda>s ident. addLogEntry s ident (Template ''Introduction'' [ident])) st6
           (seedAgents @ [''synthesizer'']))"


subsection \<open>Tool dispatch loop\<close>

text \<open>
  \<open>getLogHistory\<close>: the raw text of the entries from \<open>logs.slice(-count)\<close>, the last
  \<open>cnt\<close> ones, and all of them at \<open>cnt = 0\<close>, where \<open>-0\<close> is the index 0; the empty list
  stands for the fixed sentence returned when the notebook is missing or has no entry.
\<close>

definition getLogHistory :: "mission \<Rightarrow> NotebookId \<Rightarrow> nat \<Rightarrow> markdown list" where
  "getLogHistory st notebookId cnt =
     (case map_of (notebooks st) notebookId of
        None \<Rightarrow> []
      | Some nb \<Rightarrow>
          map rawMarkdown
            (if cnt = 0 then logs nb else drop (length (logs nb) - cnt) (logs nb)))"

definition missingNodesError :: "string list \<Rightarrow> string" where
  "missingNodesError missingNodes =
     ''The following node ID(s) do not exist: '' @ join '', '' missingNodes @
     ''. Please review the provided Knowledge Graph and choose valid IDs for your next action.''"

definition missingNodeError :: "string \<Rightarrow> string" where
  "missingNodeError node_id =
     ''The node ID '' @ [CHR 39] @ node_id @ [CHR 39] @
     '' does not exist. Please review the provided Knowledge Graph and choose a valid ID for your next action.''"

definition respond :: "tool_call \<Rightarrow> tool_response \<Rightarrow> FunctionResponse option" where
  "respond call r = Some \<lparr>fr_name = call_name call, response = r\<rparr>"

text \<open>
  One case of the \<open>switch\<close> in \<open>runArchitectStep\<close> per equation; \<open>n\<close> is the round. An
  absent text of a one-shot generation is dereferenced by \<open>substring\<close> in the first two
  cases (a TypeError) and is the empty text in the others. A name outside the switch
  leaves \<open>functionResponsePayload\<close> undefined.
\<close>

fun toolEffect ::
  "env \<Rightarrow> nat \<Rightarrow> mission \<Rightarrow> tool_call
     \<Rightarrow> (mission \<times> string) + (mission \<times> FunctionResponse option)" where
  "toolEffect e n st (invoke_intuitionist node_id_A node_id_B reason) =
     (case (map_of (knowledgeGraphMap st) node_id_A, map_of (knowledgeGraphMap st) node_id_B) of
        (Some nodeA, Some nodeB) \<Rightarrow>
          (case generateContent e n
                  (IntuitionistRequest (map_of (specialistPrompts st) ''specialist-6'') nodeA nodeB) of
             GenThrows m \<Rightarrow> Inl (st, m)
           | GenText None \<Rightarrow>
               Inl (addLogEntry st ''specialist-6'' (Template ''CONCEPTUAL LEAP'' [''undefined'']),
                    ''TypeError'')
           | GenText (Some newConcept) \<Rightarrow>
               Inr (addLogEntry
                      (addLogEntry st ''specialist-6'' (Template ''CONCEPTUAL LEAP'' [newConcept]))
                      ''synthesizer''
                      (Template ''EUREKA! Intuitionist Invoked.''
                         [reason, node_id_A, node_id_B, take 200 newConcept]),
                    respond (invoke_intuitionist node_id_A node_id_B reason) (NewConcept newConcept)))
      | (nodeA, nodeB) \<Rightarrow>
          (let missingNodes = (if nodeA = None then [node_id_A] else []) @
                              (if nodeB = None then [node_id_B] else [])
           in Inr (addLogEntry st ''synthesizer''
                     (Template ''Invalid Tool Call Blocked''
                        [''invoke_intuitionist'', join '', '' missingNodes]),
                   respond (invoke_intuitionist node_id_A node_id_B reason)
                     (Failure (missingNodesError missingNodes)))))"
| "toolEffect e n st (challenge_with_skeptic node_id reason) =
     (case map_of (knowledgeGraphMap st) node_id of
        None \<Rightarrow>
          Inr (addLogEntry st ''synthesizer''
                 (Template ''Invalid Tool Call Blocked'' [''challenge_with_skeptic'', node_id]),
               respond (challenge_with_skeptic node_id reason) (Failure (missingNodeError node_id)))
      | Some targetNode \<Rightarrow>
          (case generateContent e n
                  (SkepticRequest (map_of (specialistPrompts st) ''specialist-5'') targetNode) of
             GenThrows m \<Rightarrow> Inl (st, m)
           | GenText None \<Rightarrow>
               Inl (addLogEntry st ''specialist-5'' (Template ''undefined'' []), ''TypeError'')
           | GenText (Some critique) \<Rightarrow>
               Inr (addLogEntry (addLogEntry st ''specialist-5'' (Markdown critique))
                      ''synthesizer''
                      (Template ''Adversarial Challenge Initiated''
                         [node_id, reason, take 200 critique]),
                    respond (challenge_with_skeptic node_id reason) (Critique critique))))"
| "toolEffect e n st (deploy_new_specialist_agent specialist_id mission_prompt title icon tools lifespan) =
     Inr (deployNewAgent e st specialist_id mission_prompt
            (case tools of None \<Rightarrow> [] | Some ts \<Rightarrow> ts) lifespan False,
          respond (deploy_new_specialist_agent specialist_id mission_prompt title icon tools lifespan)
            (Message (''Agent '' @ specialist_id @ '' deployed successfully.'')))"
| "toolEffect e n st (request_formal_verification node_id proof_code) =
     (let (st1, verified, feedback) =
            (case map_of (knowledgeGraphMap st) node_id of
               None \<Rightarrow> (st, False, ''Verification failed: Node not found.'')
             | Some nodeToVerify \<Rightarrow>
                 let complexity = length proof_code;
                     successChance = max (1 / 10) (1 - real complexity / 1000);
                     ok = (fst (mathRandom e n) < successChance);
                     fb = (if ok then ''Verification successful. The proof is logically sound.''
                           else ''Verification failed. Found logical inconsistency near line '' @
                                string_of_nat (nat \<lfloor>snd (mathRandom e n) * 10 + 1\<rfloor>) @ ''.'')
                 in (renderKnowledgeGraph
                       (st\<lparr>knowledgeGraphMap :=
                             AList.update node_id (nodeToVerify\<lparr>kn_verified := Some ok\<rparr>)
                               (knowledgeGraphMap st)\<rparr>),
                     ok, fb))
      in Inr (addLogEntry st1 ''synthesizer''
                (Template ''Formal Verification Result for Node''
                   [node_id, if verified then ''VERIFIED'' else ''FAILED'', feedback]),
              respond (request_formal_verification node_id proof_code) (Verified verified feedback)))"
| "toolEffect e n st (execute_python_code code reason) =
     (let st1 = addLogEntry st ''synthesizer''
                  (Template ''Architect initiated code experiment'' [reason, code]);
          (out, err) = (case map_of (notebooks st1) ''synthesizer'' of
                          None \<Rightarrow> ([], ''Notebook synthesizer not found.'')
                        | Some nb \<Rightarrow> runPython e n code)
      in Inr (addLogEntry st1 ''synthesizer''
                (Template ''Code Execution Result'' [if out = [] then ''(empty)'' else out, err]),
              respond (execute_python_code code reason) (CodeOutput out err)))"
| "toolEffect e n st (retire_agent agent_id reason) =
     Inr (retireAgent st agent_id reason,
          respond (retire_agent agent_id reason) (Message (''Agent '' @ agent_id @ '' retired.'')))"
| "toolEffect e n st (perform_web_search query) =
     (case generateContent e n (WebSearchRequest query) of
        GenThrows m \<Rightarrow>
          Inr (addLogEntry st ''synthesizer'' (Template ''ERROR: Web search failed'' [query]),
               respond (perform_web_search query) (SearchSummary ''Web search failed.''))
      | GenText t \<Rightarrow>
          (let summary = (case t of None \<Rightarrow> [] | Some s \<Rightarrow> s)
           in Inr (addLogEntry st ''synthesizer'' (Template ''Web Search Result'' [query, summary]),
                   respond (perform_web_search query) (SearchSummary summary))))"
| "toolEffect e n st (modify_agent_prompt agent_id new_mission_prompt reason) =
     (let st1 = st\<lparr>specialistPrompts :=
                     AList.update agent_id new_mission_prompt (specialistPrompts st)\<rparr>;
          st2 = addLogEntry st1 ''synthesizer'' (Template ''Agent Evolution'' [agent_id, reason]);
          st3 = addLogEntry st2 agent_id
                  (Template ''CORE DIRECTIVE UPDATED'' [reason, new_mission_prompt])
      in Inr (st3, respond (modify_agent_prompt agent_id new_mission_prompt reason)
                     (Message (''Agent '' @ agent_id @ '' was modified.''))))"
| "toolEffect e n st (request_peer_review reviewing_agent_id target_agent_id review_task) =
     (let targetHistory = getLogHistory st target_agent_id 5;
          generated =
            (case map_of (specialistPrompts st) reviewing_agent_id of
               None \<Rightarrow> GenText (Some ''Peer review failed to execute.'')
             | Some reviewerPrompt \<Rightarrow>
                 if reviewerPrompt = [] then GenText (Some ''Peer review failed to execute.'')
                 else generateContent e n
                        (PeerReviewRequest reviewing_agent_id review_task target_agent_id
                           reviewerPrompt targetHistory))
      in case generated of
           GenThrows m \<Rightarrow> Inl (st, m)
         | GenText t \<Rightarrow>
             (let review = (case t of None \<Rightarrow> [] | Some s \<Rightarrow> s);
                  st1 = addLogEntry st ''synthesizer''
                          (Template ''Peer Review Initiated''
                             [reviewing_agent_id, target_agent_id, review_task, review]);
                  st2 = addLogEntry st1 reviewing_agent_id
                          (Template ''Peer Review Task Completed.'' [target_agent_id]);
                  st3 = addLogEntry st2 target_agent_id
                          (Template ''My work has been reviewed'' [reviewing_agent_id, review])
              in Inr (st3, respond (request_peer_review reviewing_agent_id target_agent_id review_task)
                             (ReviewSummary review))))"
| "toolEffect e n st (other_tool name) = Inr (st, None)"

text \<open>
  The \<open>while (result.functionCalls)\<close> loop. Each round appends the model's calls and the
  response of the first call to the conversation and asks the oracle again; an empty
  batch makes \<open>call.name\<close> throw. The loop has no bound in the source: the value is
  \<open>None\<close> when the oracle never stops requesting tools.
\<close>

partial_function (option) toolLoop ::
  "env \<Rightarrow> message list \<Rightarrow> mission \<Rightarrow> ((mission \<times> string) + (mission \<times> string option)) option" where
  "toolLoop e conversation st =
     (case architect e conversation of
        GenerateThrows m \<Rightarrow> Some (Inl (st, m))
      | FinalText t \<Rightarrow> Some (Inr (st, t))
      | FunctionCalls calls \<Rightarrow>
          (case calls of
             [] \<Rightarrow> Some (Inl (st, ''TypeError''))
           | call # others \<Rightarrow>
               (case toolEffect e (length conversation) st call of
                  Inl t \<Rightarrow> Some (Inl t)
                | Inr r \<Rightarrow>
                    toolLoop e (conversation @ [ModelCalls calls, ToolResponse (snd r)]) (fst r))))"


subsection \<open>The architect step\<close>

text \<open>
  The opening of \<open>runArchitectStep\<close>: the directive that is interpolated into the prompt
  (\<open>None\<close> for the empty string) and the state after the log entry.
\<close>

definition chaosIntervention :: "mission \<Rightarrow> markdown option \<times> mission" where
  "chaosIntervention st =
     (if stagnationCounter st \<ge> CHAOS_INTERVENTION_THRESHOLD
      then (Some (Template ''! CHAOS INTERVENTION ACTIVE !'' [string_of_nat (stagnationCounter st)]),
            addLogEntry st ''synthesizer''
              (Template ''! CHAOS INTERVENTION TRIGGERED !'' [string_of_nat (stagnationCounter st)]))
      else (None, st))"

definition architectRequest ::
  "markdown option \<Rightarrow> mission \<Rightarrow> (NotebookId \<times> string) list \<Rightarrow> architect_request" where
  "architectRequest chaos st specialistOutputs =
     \<lparr>chaosInterventionPrompt = chaos,
      req_knowledgeGraph = map snd (knowledgeGraphMap st),
      req_specialistInputs = specialistOutputs,
      req_cycle = cycleCounter st,
      req_stagnation = stagnationCounter st,
      req_focusHistory = drop (length (strategicFocusHistory st) - 10) (strategicFocusHistory st),
      req_metrics = agentPerformanceMetrics st\<rparr>"

text \<open>The recovery of the JSON text: code fence, then first \<open>{\<close> to last \<open>}\<close>.\<close>

definition recoverJson :: "string \<Rightarrow> string" where
  "recoverJson text =
     (let s0 = trim text;
          s1 = (if prefix ''```json'' s0
                then (let s = drop 7 s0
                      in if suffix ''```'' s then take (length s - 3) s else s)
                else s0);
          firstBrace = length (takeWhile (\<lambda>c. c \<noteq> CHR ''{'') s1);
          afterLast = length s1 - length (takeWhile (\<lambda>c. c \<noteq> CHR ''}'') (rev s1))
      in if firstBrace < length s1 \<and> 0 < afterLast \<and> afterLast - 1 > firstBrace
         then take (afterLast - firstBrace) (drop firstBrace s1)
         else s1)"

text \<open>The \<open>catch\<close> block of \<open>runArchitectStep\<close>.\<close>

definition catchSynthesisError :: "mission \<Rightarrow> string \<Rightarrow> mission" where
  "catchSynthesisError st errorMessage =
     stopSearch False
       (addLogEntry st ''synthesizer'' (Template ''FATAL SYNTHESIS ERROR'' [errorMessage]))"

definition terminalMarker :: string where
  "terminalMarker = ''PROOF COMPLETE:''"

text \<open>What \<open>runArchitectStep\<close> does with the parsed payload.\<close>

definition applyFinalPayload :: "env \<Rightarrow> mission \<Rightarrow> SynthesizerResponse \<Rightarrow> mission" where
  "applyFinalPayload e st parsedResponse =
     (let summary = (case synthesis_summary parsedResponse of
                       None \<Rightarrow> ''No summary provided.''
                     | Some s \<Rightarrow> if s = [] then ''No summary provided.'' else s)
      in if prefix terminalMarker (trim summary)
         then stopSearch True (st\<lparr>finalProofContent := trim (replace summary terminalMarker [])\<rparr>)
         else (case parseAndApplyArchitectResponse e
                      (addLogEntry st ''synthesizer'' (Markdown summary)) parsedResponse of
                 Inl t \<Rightarrow> catchSynthesisError (fst t) (snd t)
               | Inr st' \<Rightarrow> st'))"

definition runArchitectStep ::
  "env \<Rightarrow> mission \<Rightarrow> (NotebookId \<times> string) list \<Rightarrow> mission option" where
  "runArchitectStep e st specialistOutputs =
     (if \<not> isSearching st then Some st
      else
        let (chaos, st1) = chaosIntervention st
        in case toolLoop e [UserPrompt (architectRequest chaos st1 specialistOutputs)] st1 of
             None \<Rightarrow> None
           | Some (Inl t) \<Rightarrow> Some (catchSynthesisError (fst t) (snd t))
           | Some (Inr r) \<Rightarrow>
               (case snd r of
                  None \<Rightarrow>
                    Some (catchSynthesisError (fst r)
                            ''The Metacognitive Architect returned an empty response.'')
                | Some text \<Rightarrow>
                    (case jsonParse e (recoverJson text) of
                       None \<Rightarrow> Some (catchSynthesisError (fst r) ''SyntaxError'')
                     | Some parsedResponse \<Rightarrow> Some (applyFinalPayload e (fst r) parsedResponse))))"

text \<open>The state of the module when it is loaded, before any mission.\<close>

definition initialMission :: mission where
  "initialMission =
     \<lparr>notebooks = map (\<lambda>ident. (ident, \<lparr>logs = [], logCounter = 0\<rparr>)) (seedAgents @ [''synthesizer'']),
      specialistMetadata =
        [(''specialist-4'', \<lparr>required_tools = [''perform_web_search''], lifespan_cycles = None,
                               creationCycle = 0\<rparr>),
         (''specialist-5'', \<lparr>required_tools = [], lifespan_cycles = None, creationCycle = 0\<rparr>),
         (''specialist-6'', \<lparr>required_tools = [], lifespan_cycles = None, creationCycle = 0\<rparr>)],
      specialistPrompts = map (\<lambda>ident. (ident, ''prompt of '' @ ident)) seedAgents,
      activeSpecialists = seedAgents,
      knowledgeGraphMap = [],
      knowledgeNodeCounter = 0,
      vectorKnowledgeBase = [],
      currentMissionObjective = initialObjective,
      activeResearchVector = initialVector,
      stagnationCounter = 0,
      strategicFocusHistory = [],
      agentPerformanceMetrics = [],
      cycleCounter = 0,
      isSearching = False,
      searchIntervalId = None,
      finalProofContent = [],
      breakthroughShown = False,
      db = Some []\<rparr>"


subsection \<open>Invariants and fixtures\<close>

text \<open>
  Every key of the graph was allocated from the counter: it is one character followed by
  the decimal form of a number below the counter.
\<close>

definition idsAllocated :: "mission \<Rightarrow> bool" where
  "idsAllocated st =
     (\<forall>k \<in> fst ` set (knowledgeGraphMap st).
        \<exists>c n. n < knowledgeNodeCounter st \<and> k = c # string_of_nat n)"

text \<open>The id given to the \<open>i\<close>-th node of an update that starts at counter \<open>c\<close>.\<close>

definition allocatedId :: "nat \<Rightarrow> knowledge_update_item list \<Rightarrow> nat \<Rightarrow> string" where
  "allocatedId c nodes i = charAt0 (type_name (ku_type (nodes ! i))) @ string_of_nat (c + i)"

text \<open>An environment in which every service fails or answers with nothing.\<close>

definition silentEnv :: env where
  "silentEnv =
     \<lparr>embedContent = (\<lambda>t. None),
      architect = (\<lambda>c. FinalText None),
      generateContent = (\<lambda>n r. GenThrows ''offline''),
      runPython = (\<lambda>n c. ([], [])),
      mathRandom = (\<lambda>n. (0, 0)),
      notebookElementFound = (\<lambda>i. True),
      jsonParse = (\<lambda>t. None)\<rparr>"

text \<open>
  The test of the first loop of \<open>checkAgentLifecycles\<close> on one agent: it has metadata, a
  lifespan that is not null, and its age has reached the lifespan.
\<close>

abbreviation expiredAt :: "mission \<Rightarrow> NotebookId \<Rightarrow> bool" where
  "expiredAt st ident \<equiv>
     (\<exists>meta l. map_of (specialistMetadata st) ident = Some meta \<and> lifespan_cycles meta = Some l
        \<and> cycleCounter st - creationCycle meta \<ge> l)"

text \<open>
  A payload of two nodes that both carry an \<open>id\<close> of their own, with an empty list of
  research vectors.
\<close>

definition overridingUpdate :: "knowledge_update_item list" where
  "overridingUpdate =
     [\<lparr>ku_type = HYPOTHESIS, ku_content = ''h'', ku_relations = [], created_by = ''specialist-1'',
        ku_id = Some ''X'', ku_invalidated = None, ku_verified = None\<rparr>,
      \<lparr>ku_type = THEOREM, ku_content = ''t'', ku_relations = [], created_by = ''specialist-3'',
        ku_id = Some ''X'', ku_invalidated = None, ku_verified = None\<rparr>]"

definition overridingPayload :: SynthesizerResponse where
  "overridingPayload =
     \<lparr>knowledge_update = Some overridingUpdate,
      strategic_planning = Some \<lparr>strategic_focus = [], research_vectors = Some []\<rparr>,
      strategic_assessment = None, synthesis_summary = None\<rparr>"

text \<open>
  Cycle 5 with two task forces created at cycle 2, one with lifespan 3 and one with
  lifespan 4, beside the seed agents.
\<close>

definition lifecycleSample :: mission where
  "lifecycleSample =
     initialMission\<lparr>
       cycleCounter := 5,
       activeSpecialists := seedAgents @ [''tf-a'', ''tf-b''],
       notebooks := notebooks initialMission @
         [(''tf-a'', \<lparr>logs = [], logCounter = 0\<rparr>), (''tf-b'', \<lparr>logs = [], logCounter = 0\<rparr>)],
       specialistPrompts := specialistPrompts initialMission @
         [(''tf-a'', ''prompt a''), (''tf-b'', ''prompt b'')],
       specialistMetadata := specialistMetadata initialMission @
         [(''tf-a'', \<lparr>required_tools = [], lifespan_cycles = Some 3, creationCycle = 2\<rparr>),
          (''tf-b'', \<lparr>required_tools = [], lifespan_cycles = Some 4, creationCycle = 2\<rparr>)],
       agentPerformanceMetrics := [(''tf-a'', zeroMetric), (''tf-b'', zeroMetric)]\<rparr>"

text \<open>An oracle that asks once to deploy an agent under the id of a seed agent.\<close>

definition deployTwiceEnv :: env where
  "deployTwiceEnv =
     silentEnv\<lparr>architect := (\<lambda>c. if c = []
        then FunctionCalls [deploy_new_specialist_agent ''specialist-1'' ''p'' ''t'' ''i'' None None]
        else FinalText None)\<rparr>"

text \<open>An oracle that asks once to challenge a node that does not exist.\<close>

definition challengeMissingEnv :: env where
  "challengeMissingEnv =
     silentEnv\<lparr>architect := (\<lambda>c. if c = []
        then FunctionCalls [challenge_with_skeptic ''X9'' ''why'']
        else FinalText None)\<rparr>"

text \<open>
  The invalidation rule in the words of the specification: some other node has the
  relation \<open>REFUTES:<id>\<close> or \<open>INVALIDATES:<id>\<close>.
\<close>

definition spec_invalidated :: "KnowledgeNode list \<Rightarrow> string \<Rightarrow> bool" where
  "spec_invalidated nodes ident =
     (\<exists>m \<in> set nodes. kn_id m \<noteq> ident \<and>
        (''REFUTES:'' @ ident \<in> set (kn_relations m) \<or>
         ''INVALIDATES:'' @ ident \<in> set (kn_relations m)))"

text \<open>What the code takes as a relation that invalidates the target.\<close>

abbreviation invalidates :: "string \<Rightarrow> string \<Rightarrow> bool" where
  "invalidates rel target \<equiv>
     (\<exists>action rest. split_colon rel = action # target # rest
        \<and> (toUpperCase action = ''INVALIDATES'' \<or> toUpperCase action = ''REFUTES''))"

text \<open>
  A hypothesis that refutes itself, as the first node of a mission; a hypothesis with a
  refutation of it; and a concept that supports the hypothesis.
\<close>

definition selfRefutingItem :: knowledge_update_item where
  "selfRefutingItem =
     \<lparr>ku_type = HYPOTHESIS, ku_content = ''h'', ku_relations = [''REFUTES:H0''],
      created_by = ''specialist-1'',
      ku_id = None, ku_invalidated = None, ku_verified = None\<rparr>"

definition selfRefuting :: mission where
  "selfRefuting =
     initialMission\<lparr>knowledgeGraphMap := [(''H0'', newKnowledgeNode ''H0'' selfRefutingItem (1 / 2))],
                    knowledgeNodeCounter := 1\<rparr>"

definition refutationSample :: mission where
  "refutationSample =
     initialMission\<lparr>knowledgeGraphMap :=
        [(''H0'', newKnowledgeNode ''H0''
                   \<lparr>ku_type = HYPOTHESIS, ku_content = ''h'', ku_relations = [],
                    created_by = ''specialist-1'',
                    ku_id = None, ku_invalidated = None, ku_verified = None\<rparr> (1 / 2)),
         (''R1'', newKnowledgeNode ''R1''
                   \<lparr>ku_type = REFUTATION, ku_content = ''r'', ku_relations = [''REFUTES:H0''],
                    created_by = ''specialist-2'',
                    ku_id = None, ku_invalidated = None, ku_verified = None\<rparr> (1 / 2))],
        knowledgeNodeCounter := 2\<rparr>"

definition supportNode :: KnowledgeNode where
  "supportNode =
     newKnowledgeNode ''C2''
       \<lparr>ku_type = CONCEPT, ku_content = ''c'', ku_relations = [''SUPPORTS:H0''],
        created_by = ''specialist-2'',
        ku_id = None, ku_invalidated = None, ku_verified = None\<rparr> (1 / 2)"

text \<open>
  A payload can be applied without a throw when it brings no node or brings research
  vectors.
\<close>

abbreviation applicable :: "SynthesizerResponse \<Rightarrow> bool" where
  "applicable p \<equiv>
     (knowledge_update p = None \<or> knowledge_update p = Some []
      \<or> (\<exists>pl vs. strategic_planning p = Some pl \<and> research_vectors pl = Some vs))"

text \<open>A payload that only reports a stagnation level.\<close>

definition stagnationPayload :: "int \<Rightarrow> SynthesizerResponse" where
  "stagnationPayload level =
     \<lparr>knowledge_update = None, strategic_planning = None,
      strategic_assessment = Some \<lparr>stagnation_level = level, justification = ''j''\<rparr>,
      synthesis_summary = Some ''summary''\<rparr>"

text \<open>
  A payload that reports the level 2 under a summary that begins with the terminal
  marker, and one that reports the level 2 and brings a node but no plan.
\<close>

definition markedPayload :: SynthesizerResponse where
  "markedPayload = (stagnationPayload 2)\<lparr>synthesis_summary := Some ''PROOF COMPLETE: done''\<rparr>"

definition vectorlessPayload :: SynthesizerResponse where
  "vectorlessPayload =
     (stagnationPayload 2)\<lparr>knowledge_update :=
        Some [\<lparr>ku_type = HYPOTHESIS, ku_content = ''h'', ku_relations = [],
               created_by = ''specialist-1'', ku_id = None, ku_invalidated = None,
               ku_verified = None\<rparr>]\<rparr>"

text \<open>
  A table of focus counts whose keys are distinct and whose values are all numbers, and
  the number it holds for a label (zero when the label is absent).
\<close>

definition ordinary :: "(string \<times> count_value) list \<Rightarrow> bool" where
  "ordinary acc = (distinct (map fst acc) \<and> (\<forall>k v. map_of acc k = Some v \<longrightarrow> (\<exists>n. v = Count n)))"

definition counted :: "(string \<times> count_value) list \<Rightarrow> string \<Rightarrow> nat" where
  "counted acc k = (case map_of acc k of Some (Count n) \<Rightarrow> n | _ \<Rightarrow> 0)"

text \<open>The local \<open>summary\<close> of \<open>runArchitectStep\<close>.\<close>

abbreviation summaryOf :: "SynthesizerResponse \<Rightarrow> string" where
  "summaryOf p \<equiv>
     (case synthesis_summary p of
        None \<Rightarrow> ''No summary provided.''
      | Some s \<Rightarrow> if s = [] then ''No summary provided.'' else s)"

text \<open>The state a function that can throw ends in, thrown or returned.\<close>

definition endState :: "(mission \<times> string) + mission \<Rightarrow> mission" where
  "endState r = (case r of Inl t \<Rightarrow> fst t | Inr s \<Rightarrow> s)"

text \<open>
  A running mission with a timer and a persisted snapshot, and a payload whose summary
  has a blank before the marker.
\<close>

definition emptySnapshot :: MissionState where
  "emptySnapshot =
     \<lparr>ms_knowledgeGraph = [], ms_knowledgeNodeCounter = 0, ms_cycleCounter = 1,
      ms_stagnationCounter = 0, ms_currentMissionObjective = initialObjective,
      ms_activeResearchVector = initialVector, ms_activeSpecialists = seedAgents,
      ms_notebookLogs = [], ms_specialistPrompts = [], ms_specialistMetadata = [],
      ms_strategicFocusHistory = [], ms_agentPerformanceMetrics = []\<rparr>"

definition runningMission :: mission where
  "runningMission =
     initialMission\<lparr>isSearching := True, searchIntervalId := Some 1, cycleCounter := 1,
                    db := Some [(DB_KEY, emptySnapshot)]\<rparr>"

text \<open>
  The running mission after five stagnant cycles. An oracle that answers a request
  without the intervention directive with a payload of level 1 and a request with the
  directive with a payload of level 0, and an oracle that answers with the payload under
  the terminal marker.
\<close>

definition stalledMission :: mission where
  "stalledMission = runningMission\<lparr>stagnationCounter := 5\<rparr>"

definition directiveEnv :: env where
  "directiveEnv =
     silentEnv\<lparr>
       architect := (\<lambda>c. case c of
            [UserPrompt req] \<Rightarrow>
              (case chaosInterventionPrompt req of
                 None \<Rightarrow> FinalText (Some ''plain'')
               | Some directive \<Rightarrow> FinalText (Some ''directed''))
          | _ \<Rightarrow> FinalText None),
       jsonParse := (\<lambda>t. if t = ''plain'' then Some (stagnationPayload 1)
                          else if t = ''directed'' then Some (stagnationPayload 0)
                          else None)\<rparr>"

definition markedEnv :: env where
  "markedEnv =
     silentEnv\<lparr>architect := (\<lambda>c. FinalText (Some ''marked'')),
               jsonParse := (\<lambda>t. if t = ''marked'' then Some markedPayload else None)\<rparr>"

definition summaryPayload :: "string \<Rightarrow> SynthesizerResponse" where
  "summaryPayload s =
     \<lparr>knowledge_update = None, strategic_planning = None, strategic_assessment = None,
      synthesis_summary = Some s\<rparr>"

text \<open>The initial state after the seed agent \<open>specialist-1\<close> was retired.\<close>

definition retiredSeed :: mission where
  "retiredSeed = retireAgent initialMission ''specialist-1'' ''done''"

text \<open>
  A mission under way: two task forces beside the seed agents, two nodes in the graph,
  counters and history advanced, and a snapshot in the store.
\<close>

definition busyMission :: mission where
  "busyMission =
     lifecycleSample\<lparr>
       knowledgeGraphMap := knowledgeGraphMap refutationSample,
       knowledgeNodeCounter := 2,
       stagnationCounter := 3,
       strategicFocusHistory := [''ALGEBRA'', ''LOGIC''],
       db := Some [(DB_KEY, emptySnapshot)]\<rparr>"

section \<open>Properties\<close>

subsection \<open>Strings and association lists\<close>

lemma string_of_nat_nonempty: "string_of_nat n \<noteq> []"
  by (subst string_of_nat.simps) simp

lemma digit_char_inj: "a < 10 \<Longrightarrow> b < 10 \<Longrightarrow> digit_char a = digit_char b \<Longrightarrow> a = b"
proof -
  assume a: "a < 10" and b: "b < 10" and eq: "digit_char a = digit_char b"
  have A: "(of_char (digit_char a) :: nat) = 48 + a" using a by (simp add: digit_char_def)
  have B: "(of_char (digit_char b) :: nat) = 48 + b" using b by (simp add: digit_char_def)
  have "(of_char (digit_char a) :: nat) = of_char (digit_char b)" by (simp only: eq)
  then have "48 + a = 48 + b" by (simp only: A B)
  then show "a = b" by simp
qed

lemma string_of_nat_inj: "string_of_nat m = string_of_nat n \<Longrightarrow> m = n"
proof (induction m arbitrary: n rule: string_of_nat.induct)
  case (1 m)
  show ?case
  proof (cases "m < 10")
    case mlt: True
    show ?thesis
    proof (cases "n < 10")
      case True
      with mlt "1.prems" show ?thesis
        by (simp add: string_of_nat.simps [of m] string_of_nat.simps [of n] digit_char_inj)
    next
      case False
      with mlt "1.prems" have "string_of_nat (n div 10) = []"
        by (simp add: string_of_nat.simps [of m] string_of_nat.simps [of n])
      then show ?thesis by (simp add: string_of_nat_nonempty)
    qed
  next
    case mge: False
    show ?thesis
    proof (cases "n < 10")
      case True
      with mge "1.prems" have "string_of_nat (m div 10) = []"
        by (simp add: string_of_nat.simps [of m] string_of_nat.simps [of n])
      then show ?thesis by (simp add: string_of_nat_nonempty)
    next
      case False
      with mge "1.prems" have eq: "string_of_nat (m div 10) = string_of_nat (n div 10)"
        and d: "digit_char (m mod 10) = digit_char (n mod 10)"
        by (simp_all add: string_of_nat.simps [of m] string_of_nat.simps [of n])
      from "1.IH" [OF mge eq] have "m div 10 = n div 10" .
      moreover from d have "m mod 10 = n mod 10" by (intro digit_char_inj) simp_all
      ultimately show ?thesis by (metis div_mult_mod_eq)
    qed
  qed
qed

lemma charAt0_type_name: "\<exists>c. charAt0 (type_name t) = [c]"
  by (cases t) (simp_all add: charAt0_def)

lemma update_fresh: "k \<notin> fst ` set al \<Longrightarrow> AList.update k v al = al @ [(k, v)]"
  by (induction al) auto

subsection \<open>Node identifiers\<close>

lemma fresh_id:
  assumes "idsAllocated st"
  shows "charAt0 (type_name t) @ string_of_nat (knowledgeNodeCounter st)
           \<notin> fst ` set (knowledgeGraphMap st)"
proof
  assume mem: "charAt0 (type_name t) @ string_of_nat (knowledgeNodeCounter st)
                 \<in> fst ` set (knowledgeGraphMap st)"
  obtain c where c: "charAt0 (type_name t) = [c]" using charAt0_type_name by blast
  from assms mem obtain c' n where n: "n < knowledgeNodeCounter st"
    and eq: "charAt0 (type_name t) @ string_of_nat (knowledgeNodeCounter st) = c' # string_of_nat n"
    unfolding idsAllocated_def by blast
  from eq c have "string_of_nat (knowledgeNodeCounter st) = string_of_nat n" by simp
  then have "knowledgeNodeCounter st = n" by (rule string_of_nat_inj)
  with n show False by simp
qed

lemma insertNode_raw:
  "\<exists>st'. insertNode e (Some vs) st node = Inr st'
     \<and> knowledgeGraphMap st' =
         AList.update (charAt0 (type_name (ku_type node)) @ string_of_nat (knowledgeNodeCounter st))
           (newKnowledgeNode
              (charAt0 (type_name (ku_type node)) @ string_of_nat (knowledgeNodeCounter st))
              node (promiseScoreFor vs node))
           (knowledgeGraphMap st)
     \<and> knowledgeNodeCounter st' = Suc (knowledgeNodeCounter st)"
  by (simp add: insertNode_def Let_def split: option.split)

lemma insertNode_Some:
  assumes "idsAllocated st"
  shows "\<exists>st'. insertNode e (Some vs) st node = Inr st'
           \<and> knowledgeGraphMap st' =
               knowledgeGraphMap st @
                 [(charAt0 (type_name (ku_type node)) @ string_of_nat (knowledgeNodeCounter st),
                   newKnowledgeNode
                     (charAt0 (type_name (ku_type node)) @ string_of_nat (knowledgeNodeCounter st))
                     node (promiseScoreFor vs node))]
           \<and> knowledgeNodeCounter st' = Suc (knowledgeNodeCounter st)"
proof -
  let ?new = "charAt0 (type_name (ku_type node)) @ string_of_nat (knowledgeNodeCounter st)"
  let ?nd = "newKnowledgeNode ?new node (promiseScoreFor vs node)"
  from insertNode_raw [of e vs st node] obtain st' where
    r: "insertNode e (Some vs) st node = Inr st'"
    "knowledgeGraphMap st' = AList.update ?new ?nd (knowledgeGraphMap st)"
    "knowledgeNodeCounter st' = Suc (knowledgeNodeCounter st)"
    by blast
  then show ?thesis
    using update_fresh [OF fresh_id [OF assms, of "ku_type node"], of ?nd] by auto
qed

lemma idsAllocated_step:
  assumes "idsAllocated st"
    and "knowledgeGraphMap st' = knowledgeGraphMap st @ [(charAt0 (type_name t) @ string_of_nat (knowledgeNodeCounter st), nd)]"
    and "knowledgeNodeCounter st' = Suc (knowledgeNodeCounter st)"
  shows "idsAllocated st'"
proof -
  obtain c where c: "charAt0 (type_name t) = [c]" using charAt0_type_name by blast
  show ?thesis
    unfolding idsAllocated_def
  proof
    fix k assume "k \<in> fst ` set (knowledgeGraphMap st')"
    then consider "k \<in> fst ` set (knowledgeGraphMap st)"
      | "k = c # string_of_nat (knowledgeNodeCounter st)"
      using assms(2) c by auto
    then show "\<exists>c n. n < knowledgeNodeCounter st' \<and> k = c # string_of_nat n"
    proof cases
      case 1
      with assms(1) obtain c' n where "n < knowledgeNodeCounter st" "k = c' # string_of_nat n"
        unfolding idsAllocated_def by blast
      then show ?thesis using assms(3) by (intro exI [of _ c'] exI [of _ n]) simp
    next
      case 2
      then show ?thesis using assms(3)
        by (intro exI [of _ c] exI [of _ "knowledgeNodeCounter st"]) simp
    qed
  qed
qed

text \<open>
  What the loop over \<open>knowledge_update\<close> does to the graph. From a state whose keys were
  allocated from the counter it returns; the \<open>i\<close>-th new node is stored under the key made
  of the first character of its type and the counter value \<open>c + i\<close>; the counter grows by
  one per insertion; the keys stay pairwise distinct; and the \<open>id\<close> field of a new node is
  its key when the item has no \<open>id\<close> of its own, and the item's \<open>id\<close> otherwise.
\<close>

lemma insertNodes_allocates:
  assumes "idsAllocated st" and "distinct (map fst (knowledgeGraphMap st))"
  shows "\<exists>st' added. insertNodes e (Some vs) st nodes = Inr st'
      \<and> knowledgeNodeCounter st' = knowledgeNodeCounter st + length nodes
      \<and> knowledgeGraphMap st' = knowledgeGraphMap st @ added
      \<and> map fst added = map (allocatedId (knowledgeNodeCounter st) nodes) [0..<length nodes]
      \<and> map (\<lambda>p. kn_id (snd p)) added =
          map (\<lambda>i. case ku_id (nodes ! i) of
                      None \<Rightarrow> allocatedId (knowledgeNodeCounter st) nodes i
                    | Some ownId \<Rightarrow> ownId) [0..<length nodes]
      \<and> distinct (map fst (knowledgeGraphMap st'))
      \<and> idsAllocated st'"
  using assms
proof (induction nodes arbitrary: st)
  case Nil
  then show ?case by simp
next
  case (Cons node nodes)
  let ?new = "charAt0 (type_name (ku_type node)) @ string_of_nat (knowledgeNodeCounter st)"
  let ?nd = "newKnowledgeNode ?new node (promiseScoreFor vs node)"
  let ?own = "\<lambda>c ns i. case ku_id (ns ! i) of None \<Rightarrow> allocatedId c ns i | Some ownId \<Rightarrow> ownId"
  from insertNode_Some [OF Cons.prems(1), of e vs node]
  obtain st1 where step: "insertNode e (Some vs) st node = Inr st1"
    and kg1: "knowledgeGraphMap st1 = knowledgeGraphMap st @ [(?new, ?nd)]"
    and c1: "knowledgeNodeCounter st1 = Suc (knowledgeNodeCounter st)"
    by blast
  have a1: "idsAllocated st1" using idsAllocated_step [OF Cons.prems(1) kg1 c1] .
  have d1: "distinct (map fst (knowledgeGraphMap st1))"
    using Cons.prems(2) fresh_id [OF Cons.prems(1), of "ku_type node"] kg1 by simp
  from Cons.IH [OF a1 d1]
  obtain st' added where rest: "insertNodes e (Some vs) st1 nodes = Inr st'"
    and c': "knowledgeNodeCounter st' = knowledgeNodeCounter st1 + length nodes"
    and kg': "knowledgeGraphMap st' = knowledgeGraphMap st1 @ added"
    and ids: "map fst added = map (allocatedId (knowledgeNodeCounter st1) nodes) [0..<length nodes]"
    and own: "map (\<lambda>p. kn_id (snd p)) added = map (?own (knowledgeNodeCounter st1) nodes) [0..<length nodes]"
    and d': "distinct (map fst (knowledgeGraphMap st'))"
    and a': "idsAllocated st'"
    by blast
  have shift: "map (allocatedId (knowledgeNodeCounter st) (node # nodes)) [0..<length (node # nodes)]
      = ?new # map (allocatedId (knowledgeNodeCounter st1) nodes) [0..<length nodes]"
    by (simp add: map_upt_Suc allocatedId_def c1 del: upt_Suc)
  have nd: "kn_id ?nd = (case ku_id node of None \<Rightarrow> ?new | Some ownId \<Rightarrow> ownId)"
    by (simp add: newKnowledgeNode_def)
  have shift': "map (?own (knowledgeNodeCounter st) (node # nodes)) [0..<length (node # nodes)]
      = kn_id ?nd # map (?own (knowledgeNodeCounter st1) nodes) [0..<length nodes]"
    by (auto simp add: map_upt_Suc allocatedId_def c1 nd simp del: upt_Suc split: option.split)
  show ?case
    apply (rule exI [of _ st'])
    apply (rule exI [of _ "(?new, ?nd) # added"])
    using step rest c' c1 kg' kg1 ids own d' a' shift shift'
    apply simp
    done
qed

text \<open>
  C3. An \<open>id\<close> that an item of \<open>knowledge_update\<close> carries replaces the id made from the
  counter: \<open>id: newNodeId\<close> is written before the spread of the item. Two items that
  both carry the id \<open>X\<close>, applied to the initial state, are stored under the keys \<open>H0\<close>
  and \<open>T1\<close>, and the counter reaches 2, but both nodes have the id \<open>X\<close>: the ids of
  the new nodes are not of the form first character and counter value, and they are not
  distinct.
\<close>

theorem node_id_overridden_by_item:
  "knowledge_update overridingPayload = Some overridingUpdate
   \<and> map ku_id overridingUpdate = [Some ''X'', Some ''X'']
   \<and> map ku_type overridingUpdate = [HYPOTHESIS, THEOREM]
   \<and> knowledgeNodeCounter initialMission = 0
   \<and> (\<exists>st'. parseAndApplyArchitectResponse silentEnv initialMission overridingPayload = Inr st'
        \<and> knowledgeNodeCounter st' = 2
        \<and> map fst (knowledgeGraphMap st') = [''H0'', ''T1'']
        \<and> map (\<lambda>p. kn_id (snd p)) (knowledgeGraphMap st') = [''X'', ''X''])"
proof -
  have ids: "charAt0 ''HYPOTHESIS'' @ string_of_nat 0 = ''H0''"
    "charAt0 ''THEOREM'' @ string_of_nat (Suc 0) = ''T1''"
    by code_simp+
  have run: "insertNodes silentEnv (Some []) initialMission overridingUpdate =
      Inr (initialMission\<lparr>knowledgeNodeCounter := 2,
             knowledgeGraphMap :=
               [(''H0'', newKnowledgeNode ''H0'' (overridingUpdate ! 0) (1 / 2)),
                (''T1'', newKnowledgeNode ''T1'' (overridingUpdate ! 1) (1 / 2))]\<rparr>)"
    by (simp add: overridingUpdate_def insertNode_def Let_def promiseScoreFor_def
        getEmbedding_def silentEnv_def initialMission_def ids)
  show ?thesis
    by (simp add: parseAndApplyArchitectResponse_def overridingPayload_def run Let_def
        bestVector_def renderKnowledgeGraph_def newKnowledgeNode_def)
      (simp add: overridingUpdate_def initialMission_def)
qed

subsection \<open>Logs and retirement\<close>

lemma addLogEntry_fields [simp]:
  "specialistMetadata (addLogEntry st k m) = specialistMetadata st"
  "specialistPrompts (addLogEntry st k m) = specialistPrompts st"
  "activeSpecialists (addLogEntry st k m) = activeSpecialists st"
  "knowledgeGraphMap (addLogEntry st k m) = knowledgeGraphMap st"
  "knowledgeNodeCounter (addLogEntry st k m) = knowledgeNodeCounter st"
  "vectorKnowledgeBase (addLogEntry st k m) = vectorKnowledgeBase st"
  "currentMissionObjective (addLogEntry st k m) = currentMissionObjective st"
  "activeResearchVector (addLogEntry st k m) = activeResearchVector st"
  "stagnationCounter (addLogEntry st k m) = stagnationCounter st"
  "strategicFocusHistory (addLogEntry st k m) = strategicFocusHistory st"
  "agentPerformanceMetrics (addLogEntry st k m) = agentPerformanceMetrics st"
  "cycleCounter (addLogEntry st k m) = cycleCounter st"
  "isSearching (addLogEntry st k m) = isSearching st"
  "searchIntervalId (addLogEntry st k m) = searchIntervalId st"
  "finalProofContent (addLogEntry st k m) = finalProofContent st"
  "breakthroughShown (addLogEntry st k m) = breakthroughShown st"
  "db (addLogEntry st k m) = db st"
  by (simp_all add: addLogEntry_def split: option.split)

lemma addLogEntry_keys [simp]:
  "map fst (notebooks (addLogEntry st k m)) = map fst (notebooks st)"
proof -
  have "\<And>v nb. map_of al k = Some nb \<Longrightarrow> map fst (AList.update k v al) = map fst al" for al :: "(string \<times> NotebookState) list"
    by (induction al) (auto split: if_splits)
  then show ?thesis by (simp add: addLogEntry_def split: option.split)
qed

text \<open>Apart from the notebooks, a log entry changes nothing.\<close>

lemma addLogEntry_only_notebooks:
  "addLogEntry st k m = st\<lparr>notebooks := notebooks (addLogEntry st k m)\<rparr>"
  by (simp add: addLogEntry_def split: option.split)

lemma retireAgent_fields:
  "activeSpecialists (retireAgent st i r) = filter (\<lambda>x. x \<noteq> i) (activeSpecialists st)"
  "map_of (specialistMetadata (retireAgent st i r)) j
     = (if j = i then None else map_of (specialistMetadata st) j)"
  "map_of (specialistPrompts (retireAgent st i r)) j
     = (if j = i then None else map_of (specialistPrompts st) j)"
  "map_of (agentPerformanceMetrics (retireAgent st i r)) j
     = (if j = i then None else map_of (agentPerformanceMetrics st) j)"
  "map fst (notebooks (retireAgent st i r)) = filter (\<lambda>x. x \<noteq> i) (map fst (notebooks st))"
  by (simp_all add: retireAgent_def AList.delete_conv' AList.delete_keys removeAll_filter_not_eq
        eq_commute)

lemma retire_fold_active:
  "activeSpecialists (foldl (\<lambda>s (i, r). retireAgent s i r) st xs)
     = filter (\<lambda>x. x \<notin> fst ` set xs) (activeSpecialists st)"
proof (induction xs arbitrary: st)
  case Nil
  show ?case by simp
next
  case (Cons x xs)
  show ?case
    by (cases x) (auto simp: Cons.IH retireAgent_fields intro: filter_cong)
qed

lemma retire_fold_notebooks:
  "map fst (notebooks (foldl (\<lambda>s (i, r). retireAgent s i r) st xs))
     = filter (\<lambda>x. x \<notin> fst ` set xs) (map fst (notebooks st))"
proof (induction xs arbitrary: st)
  case Nil
  show ?case by simp
next
  case (Cons x xs)
  show ?case
    by (cases x) (auto simp: Cons.IH retireAgent_fields intro: filter_cong)
qed

lemma retire_fold_maps:
  "map_of (specialistMetadata (foldl (\<lambda>s (i, r). retireAgent s i r) st xs)) j
     = (if j \<in> fst ` set xs then None else map_of (specialistMetadata st) j)"
  "map_of (specialistPrompts (foldl (\<lambda>s (i, r). retireAgent s i r) st xs)) j
     = (if j \<in> fst ` set xs then None else map_of (specialistPrompts st) j)"
  "map_of (agentPerformanceMetrics (foldl (\<lambda>s (i, r). retireAgent s i r) st xs)) j
     = (if j \<in> fst ` set xs then None else map_of (agentPerformanceMetrics st) j)"
proof (induction xs arbitrary: st)
  case Nil
  { case 1 show ?case by simp }
  { case 2 show ?case by simp }
  { case 3 show ?case by simp }
next
  case (Cons x xs)
  { case 1 show ?case by (cases x) (simp add: Cons.IH(1) retireAgent_fields) }
  { case 2 show ?case by (cases x) (simp add: Cons.IH(2) retireAgent_fields) }
  { case 3 show ?case by (cases x) (simp add: Cons.IH(3) retireAgent_fields) }
qed

lemma agentsToRetire_ids:
  "i \<in> fst ` set (agentsToRetire st) \<longleftrightarrow> i \<in> set (activeSpecialists st) \<and> expiredAt st i"
proof -
  have one: "fst ` set (case map_of (specialistMetadata st) j of
           None \<Rightarrow> []
         | Some meta \<Rightarrow>
             (case lifespan_cycles meta of
                None \<Rightarrow> []
              | Some l \<Rightarrow>
                  if cycleCounter st - creationCycle meta \<ge> l
                  then [(j, ''Lifespan of '' @ string_of_int l @ '' cycles expired.'')]
                  else [])) = (if expiredAt st j then {j} else {})" for j
  proof (cases "map_of (specialistMetadata st) j")
    case None
    then show ?thesis by simp
  next
    case (Some meta)
    then show ?thesis by (cases "lifespan_cycles meta") simp_all
  qed
  have "fst ` set (agentsToRetire st) = (\<Union>j \<in> set (activeSpecialists st). if expiredAt st j then {j} else {})"
    unfolding agentsToRetire_def set_concat set_map image_UN image_image
    by (simp only: one)
  then show ?thesis by auto
qed

subsection \<open>Lifecycle check\<close>

text \<open>
  C5. The lifecycle check retires exactly the active agents that have metadata with a
  lifespan that is not null and whose age \<open>cycleCounter - creationCycle\<close> has reached it:
  the active list after the check is the list before it without those agents, their
  prompt, metadata, metric and notebook are deleted, and the entries of every other
  agent are as before. The agents to retire are collected from the state before the
  check, so no retirement changes what the scan sees. An agent whose lifespan is null
  stays. At cycle 5 an agent created at cycle 2 is retired when its lifespan is 3 and
  stays when it is 4.
\<close>

theorem checkAgentLifecycles_retires_exactly_expired:
  "activeSpecialists (checkAgentLifecycles st)
     = filter (\<lambda>i. \<not> expiredAt st i) (activeSpecialists st)
   \<and> (\<forall>i. i \<in> set (activeSpecialists st) \<and> expiredAt st i \<longrightarrow>
          map_of (specialistPrompts (checkAgentLifecycles st)) i = None
        \<and> map_of (specialistMetadata (checkAgentLifecycles st)) i = None
        \<and> map_of (agentPerformanceMetrics (checkAgentLifecycles st)) i = None
        \<and> i \<notin> fst ` set (notebooks (checkAgentLifecycles st)))
   \<and> (\<forall>i. \<not> (i \<in> set (activeSpecialists st) \<and> expiredAt st i) \<longrightarrow>
          map_of (specialistPrompts (checkAgentLifecycles st)) i = map_of (specialistPrompts st) i
        \<and> map_of (specialistMetadata (checkAgentLifecycles st)) i = map_of (specialistMetadata st) i
        \<and> map_of (agentPerformanceMetrics (checkAgentLifecycles st)) i
            = map_of (agentPerformanceMetrics st) i
        \<and> (i \<in> fst ` set (notebooks (checkAgentLifecycles st)) \<longleftrightarrow> i \<in> fst ` set (notebooks st)))
   \<and> (\<forall>i meta. i \<in> set (activeSpecialists st) \<and> map_of (specialistMetadata st) i = Some meta
          \<and> lifespan_cycles meta = None \<longrightarrow> i \<in> set (activeSpecialists (checkAgentLifecycles st)))
   \<and> (\<forall>i meta. cycleCounter st = 5 \<and> i \<in> set (activeSpecialists st)
          \<and> map_of (specialistMetadata st) i = Some meta \<and> creationCycle meta = 2 \<longrightarrow>
          (lifespan_cycles meta = Some 3 \<longrightarrow> i \<notin> set (activeSpecialists (checkAgentLifecycles st)))
        \<and> (lifespan_cycles meta = Some 4 \<longrightarrow> i \<in> set (activeSpecialists (checkAgentLifecycles st))))"
proof -
  let ?st' = "checkAgentLifecycles st"
  have mem: "\<And>i. i \<in> fst ` set (agentsToRetire st) \<longleftrightarrow> i \<in> set (activeSpecialists st) \<and> expiredAt st i"
    by (rule agentsToRetire_ids)
  have act: "activeSpecialists ?st' = filter (\<lambda>i. \<not> expiredAt st i) (activeSpecialists st)"
    unfolding checkAgentLifecycles_def retire_fold_active
    by (rule filter_cong) (auto simp: mem)
  have keys: "\<And>i. i \<in> fst ` set (notebooks ?st') \<longleftrightarrow>
      i \<in> fst ` set (notebooks st) \<and> \<not> (i \<in> set (activeSpecialists st) \<and> expiredAt st i)"
  proof -
    fix i
    have "fst ` set (notebooks ?st') = set (map fst (notebooks ?st'))" by simp
    also have "\<dots> = {x \<in> fst ` set (notebooks st). x \<notin> fst ` set (agentsToRetire st)}"
      unfolding checkAgentLifecycles_def retire_fold_notebooks by auto
    finally show "i \<in> fst ` set (notebooks ?st') \<longleftrightarrow>
      i \<in> fst ` set (notebooks st) \<and> \<not> (i \<in> set (activeSpecialists st) \<and> expiredAt st i)"
      using mem by blast
  qed
  have gone: "\<forall>i. i \<in> set (activeSpecialists st) \<and> expiredAt st i \<longrightarrow>
          map_of (specialistPrompts ?st') i = None
        \<and> map_of (specialistMetadata ?st') i = None
        \<and> map_of (agentPerformanceMetrics ?st') i = None
        \<and> i \<notin> fst ` set (notebooks ?st')"
  proof (intro allI impI)
    fix i assume a: "i \<in> set (activeSpecialists st) \<and> expiredAt st i"
    then have r: "i \<in> fst ` set (agentsToRetire st)" using mem by blast
    have "i \<notin> fst ` set (notebooks ?st')" using keys [of i] a by blast
    then show "map_of (specialistPrompts ?st') i = None
        \<and> map_of (specialistMetadata ?st') i = None
        \<and> map_of (agentPerformanceMetrics ?st') i = None
        \<and> i \<notin> fst ` set (notebooks ?st')"
      using r by (simp add: checkAgentLifecycles_def retire_fold_maps)
  qed
  have kept: "\<forall>i. \<not> (i \<in> set (activeSpecialists st) \<and> expiredAt st i) \<longrightarrow>
          map_of (specialistPrompts ?st') i = map_of (specialistPrompts st) i
        \<and> map_of (specialistMetadata ?st') i = map_of (specialistMetadata st) i
        \<and> map_of (agentPerformanceMetrics ?st') i = map_of (agentPerformanceMetrics st) i
        \<and> (i \<in> fst ` set (notebooks ?st') \<longleftrightarrow> i \<in> fst ` set (notebooks st))"
  proof (intro allI impI)
    fix i assume a: "\<not> (i \<in> set (activeSpecialists st) \<and> expiredAt st i)"
    then have r: "i \<notin> fst ` set (agentsToRetire st)" using mem by blast
    have "i \<in> fst ` set (notebooks ?st') \<longleftrightarrow> i \<in> fst ` set (notebooks st)"
      using keys [of i] a by blast
    then show "map_of (specialistPrompts ?st') i = map_of (specialistPrompts st) i
        \<and> map_of (specialistMetadata ?st') i = map_of (specialistMetadata st) i
        \<and> map_of (agentPerformanceMetrics ?st') i = map_of (agentPerformanceMetrics st) i
        \<and> (i \<in> fst ` set (notebooks ?st') \<longleftrightarrow> i \<in> fst ` set (notebooks st))"
      using r by (simp add: checkAgentLifecycles_def retire_fold_maps)
  qed
  have indef: "\<forall>i meta. i \<in> set (activeSpecialists st) \<and> map_of (specialistMetadata st) i = Some meta
          \<and> lifespan_cycles meta = None \<longrightarrow> i \<in> set (activeSpecialists ?st')"
    unfolding act by auto
  have ex: "\<forall>i meta. cycleCounter st = 5 \<and> i \<in> set (activeSpecialists st)
          \<and> map_of (specialistMetadata st) i = Some meta \<and> creationCycle meta = 2 \<longrightarrow>
          (lifespan_cycles meta = Some 3 \<longrightarrow> i \<notin> set (activeSpecialists ?st'))
        \<and> (lifespan_cycles meta = Some 4 \<longrightarrow> i \<in> set (activeSpecialists ?st'))"
    unfolding act by auto
  from act gone kept indef ex show ?thesis by (intro conjI)
qed


theorem checkAgentLifecycles_retires_exactly_expired_witness:
  "cycleCounter lifecycleSample = 5
   \<and> ''tf-a'' \<in> set (activeSpecialists lifecycleSample) \<and> expiredAt lifecycleSample ''tf-a''
   \<and> ''tf-b'' \<in> set (activeSpecialists lifecycleSample) \<and> \<not> expiredAt lifecycleSample ''tf-b''
   \<and> ''specialist-4'' \<in> set (activeSpecialists lifecycleSample)
   \<and> map_of (specialistMetadata lifecycleSample) ''specialist-4''
       = Some \<lparr>required_tools = [''perform_web_search''], lifespan_cycles = None, creationCycle = 0\<rparr>
   \<and> activeSpecialists (checkAgentLifecycles lifecycleSample) = seedAgents @ [''tf-b'']
   \<and> map_of (specialistPrompts (checkAgentLifecycles lifecycleSample)) ''tf-a'' = None
   \<and> map_of (specialistMetadata (checkAgentLifecycles lifecycleSample)) ''tf-a'' = None
   \<and> ''tf-a'' \<notin> fst ` set (notebooks (checkAgentLifecycles lifecycleSample))
   \<and> ''tf-a'' \<notin> set (activeSpecialists (checkAgentLifecycles lifecycleSample))
   \<and> map_of (specialistPrompts (checkAgentLifecycles lifecycleSample)) ''tf-b'' = Some ''prompt b''
   \<and> ''tf-b'' \<in> set (activeSpecialists (checkAgentLifecycles lifecycleSample))
   \<and> ''specialist-4'' \<in> set (activeSpecialists (checkAgentLifecycles lifecycleSample))"
proof -
  note defs = lifecycleSample_def initialMission_def seedAgents_def
  have c: "cycleCounter lifecycleSample = 5" by (simp add: defs)
  have a_in: "''tf-a'' \<in> set (activeSpecialists lifecycleSample)" by (simp add: defs)
  have b_in: "''tf-b'' \<in> set (activeSpecialists lifecycleSample)" by (simp add: defs)
  have s_in: "''specialist-4'' \<in> set (activeSpecialists lifecycleSample)" by (simp add: defs)
  have ma: "map_of (specialistMetadata lifecycleSample) ''tf-a''
      = Some \<lparr>required_tools = [], lifespan_cycles = Some 3, creationCycle = 2\<rparr>"
    by (simp add: defs)
  have mb: "map_of (specialistMetadata lifecycleSample) ''tf-b''
      = Some \<lparr>required_tools = [], lifespan_cycles = Some 4, creationCycle = 2\<rparr>"
    by (simp add: defs)
  have ms: "map_of (specialistMetadata lifecycleSample) ''specialist-4''
      = Some \<lparr>required_tools = [''perform_web_search''], lifespan_cycles = None, creationCycle = 0\<rparr>"
    by (simp add: defs)
  have pb: "map_of (specialistPrompts lifecycleSample) ''tf-b'' = Some ''prompt b''"
    by (simp add: defs)
  have ea: "expiredAt lifecycleSample ''tf-a''" by (simp add: ma c)
  have eb: "\<not> expiredAt lifecycleSample ''tf-b''" by (simp add: mb c)
  have others: "\<not> expiredAt lifecycleSample i" if "i \<in> set seedAgents" for i
    using that by (auto simp: defs)
  have flt: "filter (\<lambda>i. \<not> expiredAt lifecycleSample i) (activeSpecialists lifecycleSample)
      = seedAgents @ [''tf-b'']"
  proof -
    have "activeSpecialists lifecycleSample = seedAgents @ [''tf-a'', ''tf-b'']" by (simp add: defs)
    moreover have "filter (\<lambda>i. \<not> expiredAt lifecycleSample i) seedAgents = seedAgents"
      using others by (simp add: filter_id_conv)
    ultimately show ?thesis using ea eb by simp
  qed
  note T = checkAgentLifecycles_retires_exactly_expired [of lifecycleSample]
  from T have act: "activeSpecialists (checkAgentLifecycles lifecycleSample) = seedAgents @ [''tf-b'']"
    unfolding flt by (rule conjunct1)
  from T a_in ea have ga: "map_of (specialistPrompts (checkAgentLifecycles lifecycleSample)) ''tf-a'' = None
     \<and> map_of (specialistMetadata (checkAgentLifecycles lifecycleSample)) ''tf-a'' = None
     \<and> ''tf-a'' \<notin> fst ` set (notebooks (checkAgentLifecycles lifecycleSample))"
    by blast
  from T eb have kb: "map_of (specialistPrompts (checkAgentLifecycles lifecycleSample)) ''tf-b''
      = map_of (specialistPrompts lifecycleSample) ''tf-b''"
    by blast
  from T s_in ms have ks: "''specialist-4'' \<in> set (activeSpecialists (checkAgentLifecycles lifecycleSample))"
    by (elim conjE) (rule allE [where x = "''specialist-4''"], assumption, simp)
  from T c a_in ma have na: "''tf-a'' \<notin> set (activeSpecialists (checkAgentLifecycles lifecycleSample))"
    by (elim conjE) simp
  from T c b_in mb have nb: "''tf-b'' \<in> set (activeSpecialists (checkAgentLifecycles lifecycleSample))"
    by (elim conjE) simp
  from c a_in ea b_in eb s_in ms act ga kb pb ks na nb show ?thesis by simp
qed

subsection \<open>Tool effects\<close>

lemma toolLoop_round:
  assumes "architect e conversation = FunctionCalls (call # others)"
    and "toolEffect e (length conversation) st call = Inr (st', payload)"
  shows "toolLoop e conversation st
           = toolLoop e (conversation @ [ModelCalls (call # others), ToolResponse payload]) st'"
  by (subst toolLoop.simps) (simp add: assms)

text \<open>
  C10. Deploying an agent under an id that already has a notebook changes nothing in the
  state, and the response handed to the oracle is the success message all the same: the
  loop goes on to the next round with the state as it was and that response appended to
  the conversation.
\<close>

theorem deploy_existing_id_reports_success:
  assumes "ident \<in> fst ` set (notebooks st)"
  shows "toolEffect e n st (deploy_new_specialist_agent ident prompt title icon tools lifespan)
           = Inr (st, Some \<lparr>fr_name = ''deploy_new_specialist_agent'',
                            response = Message (''Agent '' @ ident @ '' deployed successfully.'')\<rparr>)
         \<and> success (Message (''Agent '' @ ident @ '' deployed successfully.''))
         \<and> (architect e conversation
               = FunctionCalls (deploy_new_specialist_agent ident prompt title icon tools lifespan # others)
            \<longrightarrow> toolLoop e conversation st
                = toolLoop e
                    (conversation @
                      [ModelCalls (deploy_new_specialist_agent ident prompt title icon tools lifespan # others),
                       ToolResponse (Some \<lparr>fr_name = ''deploy_new_specialist_agent'',
                            response = Message (''Agent '' @ ident @ '' deployed successfully.'')\<rparr>)])
                    st)"
proof -
  have eff: "toolEffect e n st (deploy_new_specialist_agent ident prompt title icon tools lifespan)
           = Inr (st, Some \<lparr>fr_name = ''deploy_new_specialist_agent'',
                            response = Message (''Agent '' @ ident @ '' deployed successfully.'')\<rparr>)" for n
    using assms by (simp add: deployNewAgent_def respond_def)
  show ?thesis
    using eff toolLoop_round [of e conversation _ others st st] by simp
qed

theorem deploy_existing_id_reports_success_witness:
  "''specialist-1'' \<in> fst ` set (notebooks initialMission)
   \<and> architect deployTwiceEnv []
       = FunctionCalls [deploy_new_specialist_agent ''specialist-1'' ''p'' ''t'' ''i'' None None]
   \<and> toolEffect deployTwiceEnv 0 initialMission
        (deploy_new_specialist_agent ''specialist-1'' ''p'' ''t'' ''i'' None None)
       = Inr (initialMission, Some \<lparr>fr_name = ''deploy_new_specialist_agent'',
                response = Message ''Agent specialist-1 deployed successfully.''\<rparr>)
   \<and> toolLoop deployTwiceEnv [] initialMission = Some (Inr (initialMission, None))"
proof -
  have h: "''specialist-1'' \<in> fst ` set (notebooks initialMission)"
    by (simp add: initialMission_def seedAgents_def)
  have a: "architect deployTwiceEnv []
       = FunctionCalls [deploy_new_specialist_agent ''specialist-1'' ''p'' ''t'' ''i'' None None]"
    by (simp add: deployTwiceEnv_def silentEnv_def)
  have fin: "toolLoop deployTwiceEnv (c # cs) s = Some (Inr (s, None))" for c cs s
    by (subst toolLoop.simps) (simp add: deployTwiceEnv_def silentEnv_def)
  from deploy_existing_id_reports_success [OF h, of deployTwiceEnv 0 "''p''" "''t''" "''i''" None None "[]" "[]"] a fin
  show ?thesis using h by simp
qed

lemma retireAgent_unknown:
  assumes "a \<notin> fst ` set (notebooks st)" "a \<notin> fst ` set (specialistPrompts st)"
    "a \<notin> fst ` set (specialistMetadata st)" "a \<notin> fst ` set (agentPerformanceMetrics st)"
    "a \<notin> set (activeSpecialists st)"
  shows "retireAgent st a r = addLogEntry st ''synthesizer'' (Template ''Agent Retired'' [a, r])"
proof -
  have "filter (\<lambda>specId. specId \<noteq> a) (activeSpecialists st) = activeSpecialists st"
    using assms(5) by (simp add: filter_id_conv) blast
  then show ?thesis using assms(1-4) by (simp add: retireAgent_def)
qed

lemma addLogEntry_other:
  "j \<noteq> k \<Longrightarrow> map_of (notebooks (addLogEntry s k md)) j = map_of (notebooks s) j"
  by (simp add: addLogEntry_def AList.update_conv' split: option.split)

lemma addLogEntry_appends:
  "map_of (notebooks s) k = Some nb \<Longrightarrow>
     map_of (notebooks (addLogEntry s k md)) k =
       Some (nb\<lparr>logs := logs nb @
                   [\<lparr>log_id = k @ ''-log-'' @ string_of_nat (logCounter nb), rawMarkdown = md\<rparr>],
                 logCounter := Suc (logCounter nb)\<rparr>)"
  by (simp add: addLogEntry_def AList.update_conv')

lemma addLogEntry_absent: "map_of (notebooks s) k = None \<Longrightarrow> addLogEntry s k md = s"
  by (simp add: addLogEntry_def)




text \<open>
  The case \<open>modify_agent_prompt\<close> does not look the agent up: for an id that no component
  knows, the prompt is stored and the response reports the modification.
\<close>

lemma modify_agent_prompt_unknown_agent:
  "map_of (specialistPrompts initialMission) ''ghost'' = None
   \<and> ''ghost'' \<notin> fst ` set (notebooks initialMission)
   \<and> (\<exists>st'. toolEffect silentEnv 0 initialMission (modify_agent_prompt ''ghost'' ''p'' ''r'')
          = Inr (st', Some \<lparr>fr_name = ''modify_agent_prompt'',
                   response = Message ''Agent ghost was modified.''\<rparr>)
        \<and> map_of (specialistPrompts st') ''ghost'' = Some ''p'')"
  by (simp add: initialMission_def seedAgents_def respond_def Let_def AList.update_conv')

subsection \<open>Derived invalidation\<close>

lemma relationTarget_iff:
  "Some t \<in> set (relationTarget rel) \<longleftrightarrow> invalidates rel t"
  by (cases "split_colon rel"; cases "tl (split_colon rel)")
     (auto simp: relationTarget_def Let_def)

lemma invalidatedIds_iff:
  "Some t \<in> set (invalidatedIds nodes)
     \<longleftrightarrow> (\<exists>m \<in> set nodes. \<exists>rel \<in> set (kn_relations m). invalidates rel t)"
  unfolding invalidatedIds_def set_concat set_map
  using relationTarget_iff by fastforce

lemma invalidatedIds_append:
  "invalidatedIds (xs @ ys) = invalidatedIds xs @ invalidatedIds ys"
  by (simp add: invalidatedIds_def)

text \<open>
  C2, as the code has it. After \<open>renderKnowledgeGraph\<close> the flag of every node is set,
  and it is true exactly when some node of the graph, the node itself included, has a
  relation whose first field is REFUTES or INVALIDATES in any letter case and whose second
  field is the node's id; nothing else in the graph changes. Adding a node under a fresh
  key, none of whose relations of that kind targets the id of an existing node, leaves
  the flag of every existing node as it was.
\<close>

theorem invalidation_recomputed_from_relations:
  "(\<forall>k node. (k, node) \<in> set (knowledgeGraphMap (renderKnowledgeGraph st)) \<longrightarrow>
       kn_invalidated node
         = Some (\<exists>m \<in> snd ` set (knowledgeGraphMap st). \<exists>rel \<in> set (kn_relations m).
                   invalidates rel (kn_id node)))
   \<and> map (\<lambda>p. (fst p, (snd p)\<lparr>kn_invalidated := None\<rparr>)) (knowledgeGraphMap (renderKnowledgeGraph st))
       = map (\<lambda>p. (fst p, (snd p)\<lparr>kn_invalidated := None\<rparr>)) (knowledgeGraphMap st)
   \<and> (k \<notin> fst ` set (knowledgeGraphMap st)
        \<and> (\<forall>rel \<in> set (kn_relations new). \<forall>m \<in> snd ` set (knowledgeGraphMap st).
              \<not> invalidates rel (kn_id m)) \<longrightarrow>
      take (length (knowledgeGraphMap st))
        (knowledgeGraphMap
           (renderKnowledgeGraph (st\<lparr>knowledgeGraphMap := AList.update k new (knowledgeGraphMap st)\<rparr>)))
        = knowledgeGraphMap (renderKnowledgeGraph st))"
proof (intro conjI allI impI)
  fix k node
  assume "(k, node) \<in> set (knowledgeGraphMap (renderKnowledgeGraph st))"
  then obtain n where n: "(k, n) \<in> set (knowledgeGraphMap st)"
    and node: "node = n\<lparr>kn_invalidated :=
        Some (Some (kn_id n) \<in> set (invalidatedIds (map snd (knowledgeGraphMap st))))\<rparr>"
    by (auto simp: renderKnowledgeGraph_def Let_def)
  have "kn_id node = kn_id n" using node by simp
  then show "kn_invalidated node
         = Some (\<exists>m \<in> snd ` set (knowledgeGraphMap st). \<exists>rel \<in> set (kn_relations m).
                   invalidates rel (kn_id node))"
    using node by (simp add: invalidatedIds_iff)
next
  show "map (\<lambda>p. (fst p, (snd p)\<lparr>kn_invalidated := None\<rparr>)) (knowledgeGraphMap (renderKnowledgeGraph st))
       = map (\<lambda>p. (fst p, (snd p)\<lparr>kn_invalidated := None\<rparr>)) (knowledgeGraphMap st)"
    by (simp add: renderKnowledgeGraph_def Let_def case_prod_beta)
next
  assume h: "k \<notin> fst ` set (knowledgeGraphMap st)
        \<and> (\<forall>rel \<in> set (kn_relations new). \<forall>m \<in> snd ` set (knowledgeGraphMap st).
              \<not> invalidates rel (kn_id m))"
  let ?kg = "knowledgeGraphMap st"
  have upd: "AList.update k new ?kg = ?kg @ [(k, new)]" using h by (simp add: update_fresh)
  have same: "(Some (kn_id b) \<in> set (invalidatedIds (map snd ?kg @ [new])))
      = (Some (kn_id b) \<in> set (invalidatedIds (map snd ?kg)))" if "(a, b) \<in> set ?kg" for a b
  proof -
    have "b \<in> snd ` set ?kg" using that by force
    with h have nb: "\<forall>rel \<in> set (kn_relations new). \<not> invalidates rel (kn_id b)" by blast
    have "\<not> (\<exists>m \<in> set [new]. \<exists>rel \<in> set (kn_relations m). invalidates rel (kn_id b))"
      using nb by simp
    then have "Some (kn_id b) \<notin> set (invalidatedIds [new])"
      by (simp only: invalidatedIds_iff not_False_eq_True)
    then show ?thesis by (simp add: invalidatedIds_append)
  qed
  show "take (length ?kg)
        (knowledgeGraphMap (renderKnowledgeGraph (st\<lparr>knowledgeGraphMap := AList.update k new ?kg\<rparr>)))
        = knowledgeGraphMap (renderKnowledgeGraph st)"
    unfolding upd by (auto simp: renderKnowledgeGraph_def Let_def same)
qed

theorem invalidation_recomputed_from_relations_witness:
  "(''H0'', (newKnowledgeNode ''H0''
               \<lparr>ku_type = HYPOTHESIS, ku_content = ''h'', ku_relations = [],
                created_by = ''specialist-1'',
                ku_id = None, ku_invalidated = None, ku_verified = None\<rparr> (1 / 2))\<lparr>kn_invalidated := Some True\<rparr>)
      \<in> set (knowledgeGraphMap (renderKnowledgeGraph refutationSample))
   \<and> ''C2'' \<notin> fst ` set (knowledgeGraphMap refutationSample)
   \<and> kn_relations supportNode = [''SUPPORTS:H0''] \<and> relationTarget ''SUPPORTS:H0'' = []
   \<and> (\<exists>m \<in> snd ` set (knowledgeGraphMap refutationSample). \<exists>rel \<in> set (kn_relations m).
         invalidates rel ''H0'')
   \<and> map (\<lambda>p. (fst p, kn_invalidated (snd p))) (knowledgeGraphMap (renderKnowledgeGraph refutationSample))
       = [(''H0'', Some True), (''R1'', Some False)]
   \<and> take 2 (knowledgeGraphMap (renderKnowledgeGraph
         (refutationSample\<lparr>knowledgeGraphMap :=
            AList.update ''C2'' supportNode (knowledgeGraphMap refutationSample)\<rparr>)))
       = knowledgeGraphMap (renderKnowledgeGraph refutationSample)"
proof -
  let ?h0 = "newKnowledgeNode ''H0''
               \<lparr>ku_type = HYPOTHESIS, ku_content = ''h'', ku_relations = [],
                created_by = ''specialist-1'',
                ku_id = None, ku_invalidated = None, ku_verified = None\<rparr> (1 / 2)"
  let ?r1 = "newKnowledgeNode ''R1''
               \<lparr>ku_type = REFUTATION, ku_content = ''r'', ku_relations = [''REFUTES:H0''],
                created_by = ''specialist-2'',
                ku_id = None, ku_invalidated = None, ku_verified = None\<rparr> (1 / 2)"
  have kg: "knowledgeGraphMap refutationSample = [(''H0'', ?h0), (''R1'', ?r1)]"
    by (simp add: refutationSample_def)
  have t1: "relationTarget ''REFUTES:H0'' = [Some ''H0'']" by code_simp
  have t2: "relationTarget ''SUPPORTS:H0'' = []" by code_simp
  have inv: "invalidatedIds (map snd (knowledgeGraphMap refutationSample)) = [Some ''H0'']"
    by (simp add: kg invalidatedIds_def newKnowledgeNode_def t1)
  have rendered: "knowledgeGraphMap (renderKnowledgeGraph refutationSample)
      = [(''H0'', ?h0\<lparr>kn_invalidated := Some True\<rparr>), (''R1'', ?r1\<lparr>kn_invalidated := Some False\<rparr>)]"
    unfolding renderKnowledgeGraph_def Let_def inv
    by (simp add: kg newKnowledgeNode_def)
  have m: "(''H0'', ?h0\<lparr>kn_invalidated := Some True\<rparr>)
      \<in> set (knowledgeGraphMap (renderKnowledgeGraph refutationSample))"
    by (simp add: rendered)
  have fresh: "''C2'' \<notin> fst ` set (knowledgeGraphMap refutationSample)" by (simp add: kg)
  have none: "\<forall>rel \<in> set (kn_relations supportNode). \<forall>m \<in> snd ` set (knowledgeGraphMap refutationSample).
         \<not> invalidates rel (kn_id m)"
  proof (intro ballI)
    fix rel m assume "rel \<in> set (kn_relations supportNode)"
    then have "rel = ''SUPPORTS:H0''" by (simp add: supportNode_def newKnowledgeNode_def)
    then have "Some (kn_id m) \<notin> set (relationTarget rel)" by (simp add: t2)
    then show "\<not> invalidates rel (kn_id m)" by (simp only: relationTarget_iff not_False_eq_True)
  qed
  have ex: "\<exists>m \<in> snd ` set (knowledgeGraphMap refutationSample). \<exists>rel \<in> set (kn_relations m).
         invalidates rel ''H0''"
  proof -
    have "Some ''H0'' \<in> set (invalidatedIds (map snd (knowledgeGraphMap refutationSample)))"
      by (simp add: inv)
    then show ?thesis by (simp only: invalidatedIds_iff set_map)
  qed
  note T = invalidation_recomputed_from_relations [of refutationSample "''C2''" supportNode]
  from T m have flag: "kn_invalidated (?h0\<lparr>kn_invalidated := Some True\<rparr>)
      = Some (\<exists>m \<in> snd ` set (knowledgeGraphMap refutationSample). \<exists>rel \<in> set (kn_relations m).
                   invalidates rel (kn_id (?h0\<lparr>kn_invalidated := Some True\<rparr>)))"
    by blast
  from T fresh none have keep: "take (length (knowledgeGraphMap refutationSample))
        (knowledgeGraphMap (renderKnowledgeGraph
           (refutationSample\<lparr>knowledgeGraphMap :=
              AList.update ''C2'' supportNode (knowledgeGraphMap refutationSample)\<rparr>)))
        = knowledgeGraphMap (renderKnowledgeGraph refutationSample)"
    by blast
  have len: "length (knowledgeGraphMap refutationSample) = 2" by (simp add: kg)
  have flags: "map (\<lambda>p. (fst p, kn_invalidated (snd p))) (knowledgeGraphMap (renderKnowledgeGraph refutationSample))
       = [(''H0'', Some True), (''R1'', Some False)]"
    by (simp add: rendered)
  have rels: "kn_relations supportNode = [''SUPPORTS:H0'']"
    by (simp add: supportNode_def newKnowledgeNode_def)
  from m fresh rels t2 ex flags keep [unfolded len] show ?thesis by (intro conjI)
qed

text \<open>
  C2 as stated fails on the word "other": a node whose own relation names its own id is
  flagged, with no other node in the graph. The state is the one the first insertion of
  a mission produces when the architect's node carries the relation \<open>REFUTES:H0\<close>.
\<close>

theorem invalidation_counterexample:
  "insertNodes silentEnv (Some []) initialMission [selfRefutingItem] = Inr selfRefuting
   \<and> map (\<lambda>p. (kn_id (snd p), kn_invalidated (snd p)))
         (knowledgeGraphMap (renderKnowledgeGraph selfRefuting)) = [(''H0'', Some True)]
   \<and> \<not> spec_invalidated (map snd (knowledgeGraphMap selfRefuting)) ''H0''"
proof -
  have t1: "relationTarget ''REFUTES:H0'' = [Some ''H0'']" by code_simp
  have s0: "string_of_nat 0 = ''0''" by code_simp
  have "insertNodes silentEnv (Some []) initialMission [selfRefutingItem] = Inr selfRefuting"
    by (simp add: insertNode_def initialMission_def Let_def charAt0_def promiseScoreFor_def
          selfRefuting_def selfRefutingItem_def getEmbedding_def silentEnv_def seedAgents_def s0)
  moreover have "map (\<lambda>p. (kn_id (snd p), kn_invalidated (snd p)))
         (knowledgeGraphMap (renderKnowledgeGraph selfRefuting)) = [(''H0'', Some True)]"
    by (simp add: renderKnowledgeGraph_def selfRefuting_def selfRefutingItem_def
          newKnowledgeNode_def invalidatedIds_def t1)
  moreover have "\<not> spec_invalidated (map snd (knowledgeGraphMap selfRefuting)) ''H0''"
    by (simp add: spec_invalidated_def selfRefuting_def selfRefutingItem_def
          newKnowledgeNode_def)
  ultimately show ?thesis by (intro conjI)
qed

subsection \<open>Stagnation counter\<close>

lemma renderKnowledgeGraph_fields [simp]:
  "stagnationCounter (renderKnowledgeGraph st) = stagnationCounter st"
  "knowledgeNodeCounter (renderKnowledgeGraph st) = knowledgeNodeCounter st"
  "notebooks (renderKnowledgeGraph st) = notebooks st"
  "specialistPrompts (renderKnowledgeGraph st) = specialistPrompts st"
  "specialistMetadata (renderKnowledgeGraph st) = specialistMetadata st"
  "activeSpecialists (renderKnowledgeGraph st) = activeSpecialists st"
  "agentPerformanceMetrics (renderKnowledgeGraph st) = agentPerformanceMetrics st"
  "strategicFocusHistory (renderKnowledgeGraph st) = strategicFocusHistory st"
  "cycleCounter (renderKnowledgeGraph st) = cycleCounter st"
  "isSearching (renderKnowledgeGraph st) = isSearching st"
  "searchIntervalId (renderKnowledgeGraph st) = searchIntervalId st"
  "breakthroughShown (renderKnowledgeGraph st) = breakthroughShown st"
  "db (renderKnowledgeGraph st) = db st"
  "vectorKnowledgeBase (renderKnowledgeGraph st) = vectorKnowledgeBase st"
  by (simp_all add: renderKnowledgeGraph_def Let_def)

lemma insertNode_keeps:
  "\<exists>st'. insertNode e (Some vs) st node = Inr st'
     \<and> stagnationCounter st' = stagnationCounter st"
  by (simp add: insertNode_def Let_def split: option.split)

lemma insertNode_None: "insertNode e None st node \<noteq> Inr st'"
  by (simp add: insertNode_def Let_def)

lemma insertNode_stagnation:
  assumes "insertNode e vectors st node = Inr st'"
  shows "stagnationCounter st' = stagnationCounter st"
proof (cases vectors)
  case None
  with assms show ?thesis by (simp add: insertNode_None)
next
  case (Some vs)
  with assms insertNode_keeps [of e vs st node] show ?thesis by auto
qed

lemma insertNodes_stagnation:
  "insertNodes e vectors st nodes = Inr st' \<Longrightarrow> stagnationCounter st' = stagnationCounter st"
proof (induction nodes arbitrary: st)
  case Nil
  then show ?case by simp
next
  case (Cons node nodes)
  show ?case
  proof (cases "insertNode e vectors st node")
    case (Inl t)
    with Cons.prems show ?thesis by simp
  next
    case (Inr st1)
    with Cons.prems have "insertNodes e vectors st1 nodes = Inr st'" by simp
    then have "stagnationCounter st' = stagnationCounter st1" by (rule Cons.IH)
    with insertNode_stagnation [OF Inr] show ?thesis by simp
  qed
qed

lemma insertNodes_returns:
  "\<exists>st'. insertNodes e (Some vs) st nodes = Inr st'"
proof (induction nodes arbitrary: st)
  case Nil
  show ?case by simp
next
  case (Cons node nodes)
  obtain st1 where "insertNode e (Some vs) st node = Inr st1"
    using insertNode_raw [of e vs st node] by blast
  then show ?case using Cons.IH [of st1] by simp
qed

lemma apply_returns:
  assumes "applicable p"
  shows "\<exists>st'. parseAndApplyArchitectResponse e st p = Inr st'"
proof -
  let ?st1 = "(case strategic_planning p of
                   None \<Rightarrow> st
                 | Some pl \<Rightarrow>
                     if strategic_focus pl \<noteq> []
                     then st\<lparr>strategicFocusHistory :=
                               strategicFocusHistory st @ [strategic_focus pl]\<rparr>
                     else st)"
  let ?vectors = "(case strategic_planning p of None \<Rightarrow> None | Some pl \<Rightarrow> research_vectors pl)"
  have "\<exists>st2. (case knowledge_update p of None \<Rightarrow> Inr ?st1
                | Some nodes \<Rightarrow> insertNodes e ?vectors ?st1 nodes) = Inr st2"
  proof (cases "knowledge_update p")
    case None
    then show ?thesis by simp
  next
    case (Some nodes)
    show ?thesis
    proof (cases "nodes = []")
      case True
      with Some show ?thesis by simp
    next
      case False
      with Some assms obtain pl vs where "strategic_planning p = Some pl" "research_vectors pl = Some vs"
        by auto
      then show ?thesis using Some insertNodes_returns [of e vs ?st1 nodes] by simp
    qed
  qed
  then obtain st2 where "(case knowledge_update p of None \<Rightarrow> Inr ?st1
                | Some nodes \<Rightarrow> insertNodes e ?vectors ?st1 nodes) = Inr st2" by blast
  then show ?thesis
    by (simp add: parseAndApplyArchitectResponse_def Let_def)
qed

lemma apply_stagnation:
  assumes "parseAndApplyArchitectResponse e st p = Inr st'"
  shows "stagnationCounter st' =
     (case strategic_assessment p of
        None \<Rightarrow> stagnationCounter st
      | Some a \<Rightarrow> if stagnation_level a > 0 then Suc (stagnationCounter st) else 0)"
proof -
  let ?st1 = "(case strategic_planning p of
                   None \<Rightarrow> st
                 | Some pl \<Rightarrow>
                     if strategic_focus pl \<noteq> []
                     then st\<lparr>strategicFocusHistory :=
                               strategicFocusHistory st @ [strategic_focus pl]\<rparr>
                     else st)"
  let ?vectors = "(case strategic_planning p of None \<Rightarrow> None | Some pl \<Rightarrow> research_vectors pl)"
  let ?ins = "(case knowledge_update p of None \<Rightarrow> Inr ?st1
                | Some nodes \<Rightarrow> insertNodes e ?vectors ?st1 nodes)"
  have s1: "stagnationCounter ?st1 = stagnationCounter st" by (simp split: option.split)
  obtain st2 where st2: "?ins = Inr st2"
  proof (cases ?ins)
    case (Inl t)
    then have "parseAndApplyArchitectResponse e st p = Inl t"
      by (simp add: parseAndApplyArchitectResponse_def Let_def)
    with assms show ?thesis by simp
  next
    case (Inr x)
    then show ?thesis using that by blast
  qed
  have s2: "stagnationCounter st2 = stagnationCounter st"
  proof (cases "knowledge_update p")
    case None
    with st2 s1 show ?thesis by auto
  next
    case (Some nodes)
    with st2 have "insertNodes e ?vectors ?st1 nodes = Inr st2" by simp
    from insertNodes_stagnation [OF this] s1 show ?thesis by simp
  qed
  have "stagnationCounter (case parseAndApplyArchitectResponse e st p of Inr s \<Rightarrow> s | Inl t \<Rightarrow> st) =
     (case strategic_assessment p of
        None \<Rightarrow> stagnationCounter st
      | Some a \<Rightarrow> if stagnation_level a > 0 then Suc (stagnationCounter st) else 0)"
    unfolding parseAndApplyArchitectResponse_def Let_def st2
    by (simp add: s2 split: option.split)
  with assms show ?thesis by simp
qed

lemma architectRequest_log:
  "architectRequest chaos (addLogEntry st k m) outputs = architectRequest chaos st outputs"
  by (simp add: architectRequest_def)

lemma toolLoop_final:
  "architect e conversation = FinalText t \<Longrightarrow> toolLoop e conversation st = Some (Inr (st, t))"
  by (subst toolLoop.simps) simp




text \<open>
  A payload that brings a node and no research vectors is not applied to the end: the
  lookup of the node's research vector throws after the counter of node ids was
  incremented, the stagnation counter is not updated, and the step ends in the fatal
  synthesis error, which stops the search.
\<close>

lemma payload_without_vectors_throws:
  "map_option stagnation_level (strategic_assessment vectorlessPayload) = Some 2
   \<and> parseAndApplyArchitectResponse silentEnv runningMission vectorlessPayload
       = Inl (runningMission\<lparr>knowledgeNodeCounter := 1\<rparr>, ''TypeError'')
   \<and> stagnationCounter (applyFinalPayload silentEnv runningMission vectorlessPayload) = 0
   \<and> \<not> isSearching (applyFinalPayload silentEnv runningMission vectorlessPayload)"
proof -
  have np: "\<not> prefix terminalMarker (trim ''summary'')" by code_simp
  have thrown: "parseAndApplyArchitectResponse silentEnv st vectorlessPayload
       = Inl (st\<lparr>knowledgeNodeCounter := Suc (knowledgeNodeCounter st)\<rparr>, ''TypeError'')" for st
    by (simp add: parseAndApplyArchitectResponse_def vectorlessPayload_def stagnationPayload_def
        insertNode_def Let_def)
  have c: "knowledgeNodeCounter runningMission = 0" "stagnationCounter runningMission = 0"
    by (simp_all add: runningMission_def initialMission_def)
  have su: "summaryOf vectorlessPayload = ''summary''"
    by (simp add: vectorlessPayload_def stagnationPayload_def)
  have fin: "applyFinalPayload silentEnv runningMission vectorlessPayload
      = catchSynthesisError
          ((addLogEntry runningMission ''synthesizer'' (Markdown ''summary''))
             \<lparr>knowledgeNodeCounter :=
                Suc (knowledgeNodeCounter (addLogEntry runningMission ''synthesizer'' (Markdown ''summary'')))\<rparr>)
          ''TypeError''"
    unfolding applyFinalPayload_def Let_def su thrown using np by simp
  have lv: "map_option stagnation_level (strategic_assessment vectorlessPayload) = Some 2"
    by (simp add: vectorlessPayload_def stagnationPayload_def)
  have th: "parseAndApplyArchitectResponse silentEnv runningMission vectorlessPayload
       = Inl (runningMission\<lparr>knowledgeNodeCounter := 1\<rparr>, ''TypeError'')"
    unfolding thrown c by simp
  have sc: "stagnationCounter (applyFinalPayload silentEnv runningMission vectorlessPayload) = 0"
    unfolding fin by (simp add: c catchSynthesisError_def stopSearch_def Let_def)
  have stopped: "\<not> isSearching (applyFinalPayload silentEnv runningMission vectorlessPayload)"
    unfolding fin by (simp add: catchSynthesisError_def stopSearch_def Let_def)
  from lv th sc stopped show ?thesis by (intro conjI)
qed

subsection \<open>Bias detector\<close>

lemma countFocus_ordinary:
  assumes "ordinary acc" and "x \<notin> set objectPrototypeKeys"
  shows "ordinary (countFocus acc x)"
    and "counted (countFocus acc x) k = counted acc k + (if k = x then 1 else 0)"
proof -
  have np: "x \<noteq> ''__proto__''" using assms(2) by (auto simp: objectPrototypeKeys_def)
  show "ordinary (countFocus acc x)"
  proof (cases "map_of acc x")
    case None
    with assms np show ?thesis
      by (auto simp: ordinary_def countFocus_def AList.distinct_update AList.update_conv')
  next
    case (Some v)
    with assms obtain n where "v = Count n" unfolding ordinary_def by blast
    with Some assms show ?thesis
      by (auto simp: ordinary_def countFocus_def AList.distinct_update AList.update_conv')
  qed
  show "counted (countFocus acc x) k = counted acc k + (if k = x then 1 else 0)"
  proof (cases "map_of acc x")
    case None
    with assms np show ?thesis
      by (simp add: counted_def countFocus_def AList.update_conv')
  next
    case (Some v)
    with assms obtain n where "v = Count n" unfolding ordinary_def by blast
    with Some show ?thesis
      by (simp add: counted_def countFocus_def AList.update_conv')
  qed
qed

lemma foldl_countFocus:
  assumes "ordinary acc" and "set xs \<inter> set objectPrototypeKeys = {}"
  shows "ordinary (foldl countFocus acc xs)
       \<and> (\<forall>k. counted (foldl countFocus acc xs) k = counted acc k + count_list xs k)"
  using assms
proof (induction xs arbitrary: acc)
  case Nil
  then show ?case by simp
next
  case (Cons x xs)
  from Cons.prems have x: "x \<notin> set objectPrototypeKeys"
    and xs: "set xs \<inter> set objectPrototypeKeys = {}" by auto
  note step = countFocus_ordinary [OF Cons.prems(1) x]
  from Cons.IH [OF step(1) xs] show ?case
    by (auto simp: step(2))
qed

lemma count_list_two:
  "a \<noteq> b \<Longrightarrow> count_list xs a + count_list xs b \<le> length xs"
  by (induction xs) auto


lemma dominant_entry:
  assumes "ordinary es" and "(k, v) \<in> set es" and "isDominant (k, v)"
  shows "real (counted es k) / 8 \<ge> 6 / 10"
proof -
  from assms(1,2) have m: "map_of es k = Some v" by (simp add: ordinary_def)
  from assms(3) obtain n where "v = Count n"
    by (cases v) (simp_all add: isDominant_def)
  with m assms(3) show ?thesis
    by (simp add: counted_def isDominant_def STRATEGIC_BIAS_WINDOW_def STRATEGIC_BIAS_THRESHOLD_def)
qed

lemma counted_entry:
  assumes "real (counted es k) / 8 \<ge> 6 / 10"
  shows "\<exists>v. (k, v) \<in> set es \<and> isDominant (k, v)"
proof -
  from assms have pos: "counted es k > 0" by (cases "counted es k") auto
  then obtain n where m: "map_of es k = Some (Count n)" and n: "counted es k = n"
    by (auto simp: counted_def split: option.splits count_value.splits)
  from m have "(k, Count n) \<in> set es" by (rule map_of_SomeD)
  moreover have "isDominant (k, Count n)" using assms n
    by (simp add: isDominant_def STRATEGIC_BIAS_WINDOW_def STRATEGIC_BIAS_THRESHOLD_def)
  ultimately show ?thesis by blast
qed

text \<open>
  For labels that are not names of properties of \<open>Object.prototype\<close> the detector does
  what is claimed of it: the warning names \<open>l\<close> exactly when there are at least 8 samples
  and \<open>l\<close> makes up at least 60% of the last 8.
\<close>

lemma biasWarning_ordinary_labels:
  assumes "set (drop (length h - 8) h) \<inter> set objectPrototypeKeys = {}"
  shows "biasWarning h = Some l
     \<longleftrightarrow> length h \<ge> 8 \<and> real (count_list (drop (length h - 8) h) l) / 8 \<ge> 6 / 10"
proof -
  let ?w = "drop (length h - 8) h"
  let ?es = "foldl countFocus [] ?w"
  have "ordinary []" by (simp add: ordinary_def)
  from foldl_countFocus [OF this assms]
  have ord: "ordinary ?es" and cnt: "\<And>k. counted ?es k = count_list ?w k"
    by (simp_all add: counted_def)
  show ?thesis
  proof (cases "length h \<ge> 8")
    case False
    then have "length ?w \<noteq> 8" by simp
    then have "biasWarning h = None"
      unfolding biasWarning_def STRATEGIC_BIAS_WINDOW_def Let_def by (simp only: if_False)
    with False show ?thesis by simp
  next
    case True
    then have len: "length ?w = 8" by simp
    then have bw: "biasWarning h = map_option fst (find isDominant ?es)"
      unfolding biasWarning_def STRATEGIC_BIAS_WINDOW_def Let_def by (simp only: if_True simp_thms)
    show ?thesis
    proof
      assume "biasWarning h = Some l"
      with bw have "map_option fst (find isDominant ?es) = Some l" by simp
      then obtain v where "find isDominant ?es = Some (l, v)"
        by (cases "find isDominant ?es") auto
      then have "(l, v) \<in> set ?es" "isDominant (l, v)"
        by (auto simp: find_Some_iff)
      from dominant_entry [OF ord this] True show
        "length h \<ge> 8 \<and> real (count_list ?w l) / 8 \<ge> 6 / 10"
        by (simp add: cnt)
    next
      assume r: "length h \<ge> 8 \<and> real (count_list ?w l) / 8 \<ge> 6 / 10"
      then have "real (counted ?es l) / 8 \<ge> 6 / 10" by (simp add: cnt)
      from counted_entry [OF this] have "find isDominant ?es \<noteq> None"
        by (auto simp: find_None_iff)
      then obtain l' v' where f: "find isDominant ?es = Some (l', v')" by auto
      then have "(l', v') \<in> set ?es" "isDominant (l', v')"
        by (auto simp: find_Some_iff)
      from dominant_entry [OF ord this] have d': "real (count_list ?w l') / 8 \<ge> 6 / 10"
        by (simp add: cnt)
      have "l' = l"
      proof (rule ccontr)
        assume "l' \<noteq> l"
        from count_list_two [OF this, of ?w] len have "count_list ?w l' + count_list ?w l \<le> 8"
          by simp
        with d' r show False by simp
      qed
      with f bw show "biasWarning h = Some l" by simp
    qed
  qed
qed

text \<open>
  C7 at the failing input: eight samples of one label that names a property of
  \<open>Object.prototype\<close> raise no warning, although the label makes up the whole window.
  Five of eight ordinary labels do raise it, and seven samples never do.
\<close>

theorem biasWarning_prototype_label:
  "biasWarning (replicate 8 ''constructor'') = None
   \<and> count_list (replicate 8 ''constructor'') ''constructor'' = 8
   \<and> biasWarning [''ALGEBRA'', ''LOGIC'', ''ALGEBRA'', ''ALGEBRA'', ''TOPOLOGY'', ''ALGEBRA'',
                  ''LOGIC'', ''ALGEBRA''] = Some ''ALGEBRA''
   \<and> biasWarning (replicate 7 ''ALGEBRA'') = None"
  by code_simp

subsection \<open>Terminal marker\<close>

lemma renderKnowledgeGraph_proof [simp]:
  "finalProofContent (renderKnowledgeGraph st) = finalProofContent st"
  "currentMissionObjective (renderKnowledgeGraph st) = currentMissionObjective st"
  "activeResearchVector (renderKnowledgeGraph st) = activeResearchVector st"
  by (simp_all add: renderKnowledgeGraph_def Let_def)

lemma insertNode_scheduler:
  "db (endState (insertNode e vectors st node)) = db st"
  "breakthroughShown (endState (insertNode e vectors st node)) = breakthroughShown st"
  "finalProofContent (endState (insertNode e vectors st node)) = finalProofContent st"
  by (cases vectors; simp add: endState_def insertNode_def Let_def split: option.split)+

lemma insertNodes_scheduler:
  "db (endState (insertNodes e vectors st nodes)) = db st
   \<and> breakthroughShown (endState (insertNodes e vectors st nodes)) = breakthroughShown st
   \<and> finalProofContent (endState (insertNodes e vectors st nodes)) = finalProofContent st"
proof (induction nodes arbitrary: st)
  case Nil
  show ?case by (simp add: endState_def)
next
  case (Cons node nodes)
  show ?case
  proof (cases "insertNode e vectors st node")
    case (Inl t)
    with insertNode_scheduler [of e vectors st node] show ?thesis
      by (simp add: endState_def)
  next
    case (Inr st1)
    with insertNode_scheduler [of e vectors st node] Cons.IH [of st1] show ?thesis
      by (simp add: endState_def)
  qed
qed

lemma apply_scheduler:
  "db (endState (parseAndApplyArchitectResponse e st p)) = db st
   \<and> breakthroughShown (endState (parseAndApplyArchitectResponse e st p)) = breakthroughShown st
   \<and> finalProofContent (endState (parseAndApplyArchitectResponse e st p)) = finalProofContent st"
proof -
  let ?st1 = "(case strategic_planning p of
                   None \<Rightarrow> st
                 | Some pl \<Rightarrow>
                     if strategic_focus pl \<noteq> []
                     then st\<lparr>strategicFocusHistory :=
                               strategicFocusHistory st @ [strategic_focus pl]\<rparr>
                     else st)"
  let ?vectors = "(case strategic_planning p of None \<Rightarrow> None | Some pl \<Rightarrow> research_vectors pl)"
  let ?ins = "(case knowledge_update p of None \<Rightarrow> Inr ?st1
                | Some nodes \<Rightarrow> insertNodes e ?vectors ?st1 nodes)"
  have s1: "db ?st1 = db st" "breakthroughShown ?st1 = breakthroughShown st"
    "finalProofContent ?st1 = finalProofContent st"
    by (simp_all split: option.split)
  have s2: "db (endState ?ins) = db st \<and> breakthroughShown (endState ?ins) = breakthroughShown st
    \<and> finalProofContent (endState ?ins) = finalProofContent st"
  proof (cases "knowledge_update p")
    case None
    then show ?thesis using s1 by (simp add: endState_def)
  next
    case (Some nodes)
    then show ?thesis using insertNodes_scheduler [of e ?vectors ?st1 nodes] s1 by simp
  qed
  show ?thesis
  proof (cases ?ins)
    case (Inl t)
    then have "parseAndApplyArchitectResponse e st p = Inl t"
      by (simp add: parseAndApplyArchitectResponse_def Let_def)
    with s2 Inl show ?thesis by (simp add: endState_def)
  next
    case (Inr st2)
    from s2 Inr have k: "db st2 = db st" "breakthroughShown st2 = breakthroughShown st"
      "finalProofContent st2 = finalProofContent st"
      by (simp_all add: endState_def)
    show ?thesis
      unfolding parseAndApplyArchitectResponse_def Let_def Inr
      by (simp add: endState_def k split: option.split)
  qed
qed

text \<open>
  C8, as the code has it. When the summary of the final payload, with white space trimmed
  off its ends, begins with the marker, the step ends in the completed state: the timer
  handle is cleared, the running flag is false, the snapshot under the key is deleted
  from the store, the breakthrough screen is shown and the proof text is kept; nothing is
  applied from the payload. When the trimmed summary does not begin with the marker, the
  store, the breakthrough screen and the proof text stay as they were.
\<close>

theorem terminal_marker_completes_mission:
  "(prefix terminalMarker (trim (summaryOf p)) \<longrightarrow>
      applyFinalPayload e st p
        = stopSearch True (st\<lparr>finalProofContent := trim (replace (summaryOf p) terminalMarker [])\<rparr>)
      \<and> isSearching (applyFinalPayload e st p) = False
      \<and> searchIntervalId (applyFinalPayload e st p) = None
      \<and> db (applyFinalPayload e st p) = map_option (AList.delete DB_KEY) (db st)
      \<and> (\<forall>store. db (applyFinalPayload e st p) = Some store \<longrightarrow> map_of store DB_KEY = None)
      \<and> breakthroughShown (applyFinalPayload e st p) = True
      \<and> knowledgeGraphMap (applyFinalPayload e st p) = knowledgeGraphMap st
      \<and> stagnationCounter (applyFinalPayload e st p) = stagnationCounter st)
   \<and> (\<not> prefix terminalMarker (trim (summaryOf p)) \<longrightarrow>
      db (applyFinalPayload e st p) = db st
      \<and> breakthroughShown (applyFinalPayload e st p) = breakthroughShown st
      \<and> finalProofContent (applyFinalPayload e st p) = finalProofContent st)"
proof (intro conjI impI)
  assume m: "prefix terminalMarker (trim (summaryOf p))"
  then show eq: "applyFinalPayload e st p
        = stopSearch True (st\<lparr>finalProofContent := trim (replace (summaryOf p) terminalMarker [])\<rparr>)"
    by (simp add: applyFinalPayload_def Let_def)
  show "isSearching (applyFinalPayload e st p) = False"
    unfolding eq by (simp add: stopSearch_def Let_def)
  show "searchIntervalId (applyFinalPayload e st p) = None"
    unfolding eq by (simp add: stopSearch_def Let_def)
  show d: "db (applyFinalPayload e st p) = map_option (AList.delete DB_KEY) (db st)"
    unfolding eq by (simp add: stopSearch_def Let_def)
  show "\<forall>store. db (applyFinalPayload e st p) = Some store \<longrightarrow> map_of store DB_KEY = None"
    unfolding d by (auto simp: AList.delete_conv')
  show "breakthroughShown (applyFinalPayload e st p) = True"
    unfolding eq by (simp add: stopSearch_def Let_def)
  show "knowledgeGraphMap (applyFinalPayload e st p) = knowledgeGraphMap st"
    unfolding eq by (simp add: stopSearch_def Let_def)
  show "stagnationCounter (applyFinalPayload e st p) = stagnationCounter st"
    unfolding eq by (simp add: stopSearch_def Let_def)
next
  assume n: "\<not> prefix terminalMarker (trim (summaryOf p))"
  let ?r = "parseAndApplyArchitectResponse e (addLogEntry st ''synthesizer'' (Markdown (summaryOf p))) p"
  have eq: "applyFinalPayload e st p
      = (case ?r of Inl t \<Rightarrow> catchSynthesisError (fst t) (snd t) | Inr st' \<Rightarrow> st')"
    using n by (simp add: applyFinalPayload_def Let_def)
  note k = apply_scheduler [of e "addLogEntry st ''synthesizer'' (Markdown (summaryOf p))" p]
  have "db (applyFinalPayload e st p) = db st
      \<and> breakthroughShown (applyFinalPayload e st p) = breakthroughShown st
      \<and> finalProofContent (applyFinalPayload e st p) = finalProofContent st"
  proof (cases ?r)
    case (Inl t)
    with k eq show ?thesis
      by (simp add: endState_def catchSynthesisError_def stopSearch_def Let_def)
  next
    case (Inr st')
    with k eq show ?thesis by (simp add: endState_def)
  qed
  then show "db (applyFinalPayload e st p) = db st"
    "breakthroughShown (applyFinalPayload e st p) = breakthroughShown st"
    "finalProofContent (applyFinalPayload e st p) = finalProofContent st"
    by blast+
qed


theorem terminal_marker_completes_mission_witness:
  "prefix terminalMarker (trim (summaryOf (summaryPayload ''PROOF COMPLETE: done'')))
   \<and> isSearching (applyFinalPayload silentEnv runningMission (summaryPayload ''PROOF COMPLETE: done'')) = False
   \<and> searchIntervalId (applyFinalPayload silentEnv runningMission (summaryPayload ''PROOF COMPLETE: done'')) = None
   \<and> db (applyFinalPayload silentEnv runningMission (summaryPayload ''PROOF COMPLETE: done'')) = Some []
   \<and> breakthroughShown (applyFinalPayload silentEnv runningMission (summaryPayload ''PROOF COMPLETE: done''))
   \<and> finalProofContent (applyFinalPayload silentEnv runningMission (summaryPayload ''PROOF COMPLETE: done''))
       = ''done''
   \<and> \<not> prefix terminalMarker (trim (summaryOf (summaryPayload ''Progress.'')))
   \<and> db (applyFinalPayload silentEnv runningMission (summaryPayload ''Progress.''))
       = Some [(DB_KEY, emptySnapshot)]
   \<and> \<not> breakthroughShown (applyFinalPayload silentEnv runningMission (summaryPayload ''Progress.''))"
proof -
  let ?p = "summaryPayload ''PROOF COMPLETE: done''"
  let ?q = "summaryPayload ''Progress.''"
  have sp: "summaryOf ?p = ''PROOF COMPLETE: done''" by (simp add: summaryPayload_def)
  have sq: "summaryOf ?q = ''Progress.''" by (simp add: summaryPayload_def)
  have t1: "prefix terminalMarker (trim ''PROOF COMPLETE: done'')" by code_simp
  have t2: "\<not> prefix terminalMarker (trim ''Progress.'')" by code_simp
  have t3: "trim (replace ''PROOF COMPLETE: done'' terminalMarker []) = ''done''" by code_simp
  have m: "prefix terminalMarker (trim (summaryOf ?p))" unfolding sp by (rule t1)
  have n: "\<not> prefix terminalMarker (trim (summaryOf ?q))" unfolding sq by (rule t2)
  have d0: "db runningMission = Some [(DB_KEY, emptySnapshot)]"
    "breakthroughShown runningMission = False"
    by (simp_all add: runningMission_def initialMission_def)
  note T = terminal_marker_completes_mission [of ?p silentEnv runningMission]
  note U = terminal_marker_completes_mission [of ?q silentEnv runningMission]
  from T m have e: "applyFinalPayload silentEnv runningMission ?p
        = stopSearch True (runningMission\<lparr>finalProofContent := trim (replace (summaryOf ?p) terminalMarker [])\<rparr>)"
    and a1: "isSearching (applyFinalPayload silentEnv runningMission ?p) = False"
    and a2: "searchIntervalId (applyFinalPayload silentEnv runningMission ?p) = None"
    and a3: "db (applyFinalPayload silentEnv runningMission ?p) = map_option (AList.delete DB_KEY) (db runningMission)"
    and a4: "breakthroughShown (applyFinalPayload silentEnv runningMission ?p) = True"
    by blast+
  from a3 have a3': "db (applyFinalPayload silentEnv runningMission ?p) = Some []"
    by (simp add: d0 AList.delete_eq)
  have a5: "finalProofContent (applyFinalPayload silentEnv runningMission ?p) = ''done''"
    unfolding e sp t3 by (simp add: stopSearch_def Let_def)
  from U n have b1: "db (applyFinalPayload silentEnv runningMission ?q) = db runningMission"
    and b2: "breakthroughShown (applyFinalPayload silentEnv runningMission ?q) = breakthroughShown runningMission"
    by blast+
  from m a1 a2 a3' a4 a5 n b1 b2 d0 show ?thesis by simp
qed

text \<open>
  C8 as stated fails on "not beginning with the marker": a summary with a blank before
  the marker does not begin with it, and yet the running mission is completed, its timer
  cleared and its snapshot deleted.
\<close>

theorem terminal_marker_counterexample:
  "synthesis_summary (summaryPayload '' PROOF COMPLETE: done'') = Some '' PROOF COMPLETE: done''
   \<and> \<not> prefix terminalMarker '' PROOF COMPLETE: done''
   \<and> isSearching runningMission \<and> searchIntervalId runningMission = Some 1
   \<and> db runningMission = Some [(DB_KEY, emptySnapshot)]
   \<and> \<not> isSearching (applyFinalPayload silentEnv runningMission (summaryPayload '' PROOF COMPLETE: done''))
   \<and> searchIntervalId (applyFinalPayload silentEnv runningMission (summaryPayload '' PROOF COMPLETE: done''))
       = None
   \<and> db (applyFinalPayload silentEnv runningMission (summaryPayload '' PROOF COMPLETE: done'')) = Some []
   \<and> breakthroughShown (applyFinalPayload silentEnv runningMission (summaryPayload '' PROOF COMPLETE: done''))"
proof -
  have t0: "\<not> prefix terminalMarker '' PROOF COMPLETE: done''" by code_simp
  have t1: "prefix terminalMarker (trim '' PROOF COMPLETE: done'')" by code_simp
  have e: "applyFinalPayload silentEnv runningMission (summaryPayload '' PROOF COMPLETE: done'')
      = stopSearch True (runningMission\<lparr>finalProofContent :=
          trim (replace '' PROOF COMPLETE: done'' terminalMarker [])\<rparr>)"
    using t1 by (simp add: applyFinalPayload_def summaryPayload_def)
  show ?thesis
    unfolding e using t0
    by (simp add: stopSearch_def Let_def runningMission_def initialMission_def summaryPayload_def
          AList.delete_eq)
qed

subsection \<open>Reset\<close>

lemma addLogEntry_fold_fields:
  "knowledgeGraphMap (foldl (\<lambda>s i. addLogEntry s i (f i)) st xs) = knowledgeGraphMap st"
  "knowledgeNodeCounter (foldl (\<lambda>s i. addLogEntry s i (f i)) st xs) = knowledgeNodeCounter st"
  "cycleCounter (foldl (\<lambda>s i. addLogEntry s i (f i)) st xs) = cycleCounter st"
  "stagnationCounter (foldl (\<lambda>s i. addLogEntry s i (f i)) st xs) = stagnationCounter st"
  "strategicFocusHistory (foldl (\<lambda>s i. addLogEntry s i (f i)) st xs) = strategicFocusHistory st"
  "agentPerformanceMetrics (foldl (\<lambda>s i. addLogEntry s i (f i)) st xs) = agentPerformanceMetrics st"
  "activeSpecialists (foldl (\<lambda>s i. addLogEntry s i (f i)) st xs) = activeSpecialists st"
  "vectorKnowledgeBase (foldl (\<lambda>s i. addLogEntry s i (f i)) st xs) = vectorKnowledgeBase st"
  "db (foldl (\<lambda>s i. addLogEntry s i (f i)) st xs) = db st"
  "specialistPrompts (foldl (\<lambda>s i. addLogEntry s i (f i)) st xs) = specialistPrompts st"
  "specialistMetadata (foldl (\<lambda>s i. addLogEntry s i (f i)) st xs) = specialistMetadata st"
  "map fst (notebooks (foldl (\<lambda>s i. addLogEntry s i (f i)) st xs)) = map fst (notebooks st)"
  "currentMissionObjective (foldl (\<lambda>s i. addLogEntry s i (f i)) st xs) = currentMissionObjective st"
  "activeResearchVector (foldl (\<lambda>s i. addLogEntry s i (f i)) st xs) = activeResearchVector st"
  "finalProofContent (foldl (\<lambda>s i. addLogEntry s i (f i)) st xs) = finalProofContent st"
  by (induction xs arbitrary: st; simp)+

lemma retire_ids_fold:
  "foldl (\<lambda>s ident. retireAgent s ident r) st xs
     = foldl (\<lambda>s (i, r). retireAgent s i r) st (map (\<lambda>i. (i, r)) xs)"
  by (induction xs arbitrary: st) simp_all

lemma retire_fold_db:
  "db (foldl (\<lambda>s (i, r). retireAgent s i r) st xs) = db st"
  by (induction xs arbitrary: st) (auto simp: retireAgent_def)

lemma seed_metrics:
  "foldl (\<lambda>m ident. AList.update ident zeroMetric m) [] seedAgents
     = map (\<lambda>ident. (ident, zeroMetric)) seedAgents"
  by (simp add: seedAgents_def)




end
